theory Spec2Isabelle
  imports Main "HOL-Library.Sublist" "HOL-Library.Multiset"
begin

section \<open>JavaScript values\<close>

text \<open>
  Optional strings (\<open>string | null | undefined\<close>) are \<open>string option\<close>. JavaScript treats
  \<open>undefined\<close>, \<open>null\<close> and the empty string as falsy, which \<open>truthy\<close> records, and
  \<open>a || b\<close> on an optional string is \<open>or_else\<close>.
\<close>

definition truthy :: "string option \<Rightarrow> bool" where
  "truthy s = (case s of None \<Rightarrow> False | Some v \<Rightarrow> v \<noteq> [])"

definition or_else :: "string option \<Rightarrow> string \<Rightarrow> string" where
  "or_else a b = (case a of None \<Rightarrow> b | Some v \<Rightarrow> if v = [] then b else v)"

definition or_opt :: "string option \<Rightarrow> string option \<Rightarrow> string option" where
  "or_opt a b = (if truthy a then a else b)"

definition str_includes :: "string \<Rightarrow> string \<Rightarrow> bool" where
  "str_includes s pat = sublist pat s"

text \<open>Decimal rendering of a non-negative number inside a template literal.\<close>

fun show_nat :: "nat \<Rightarrow> string" where
  "show_nat n =
     (if n < 10 then [''0123456789'' ! n]
      else show_nat (n div 10) @ [''0123456789'' ! (n mod 10)])"

declare show_nat.simps [simp del]

section \<open>The generation timeline (content-grid)\<close>

text \<open>The media type \<open>"image" | "video"\<close>.\<close>

datatype media_type = ImageKind | VideoKind

record image_data =
  url :: string
  imageBytes :: "string option"
  isSample :: "bool option"

text \<open>
  \<open>type Generation = ImageGeneration | VideoGeneration | LoadingGeneration\<close>. A
  \<open>Date\<close> is its \<open>getTime()\<close> value in milliseconds. \<open>LoadingGeneration\<close> has
  \<open>isLoading: true\<close> as its type, the other two carry the flag as a field.
\<close>

datatype Generation =
    ImageGeneration (gen_id: string) (prompt: string) (images: "image_data list")
      (timestamp: int) (isLoading: bool)
  | VideoGeneration (gen_id: string) (prompt: string) (videos: "string list")
      (timestamp: int) (isLoading: bool) (sourceImage: "string option")
  | LoadingGeneration (gen_id: string) (prompt: string) (gen_type: media_type)
      (timestamp: int) (sourceImage: "string option")
  where "isLoading (LoadingGeneration a b c d e) = True"

text \<open>The JSON body of an API response, every field optional, and the outcome of
  \<open>await fetch(...)\<close> followed by \<open>await response.json()\<close>: either of them throws
  an \<open>Error\<close> with a message, or the body is parsed.\<close>

record api_image =
  img_id :: string
  img_url :: string
  img_imageBytes :: "string option"

record api_video =
  vid_id :: string
  vid_url :: string
  vid_uri :: string

record api_data =
  success :: "bool option"
  data_images :: "api_image list option"
  data_videos :: "api_video option list option"
  data_prompt :: "string option"
  data_error :: "string option"
  data_details :: "string option"
  data_originalPrompt :: "string option"
  data_improvementPrompt :: "string option"
  data_enhancedPrompt :: "string option"

datatype fetch_outcome = Rejected string | Resolved api_data

datatype fetch_request =
    GenerateImages string "string option"
  | GenerateVideos string "string option"
  | ImageToVideo string string "string option"
  | ImproveImage string string string "string option"

record MediaItem =
  item_id :: string
  item_type :: media_type
  item_url :: string
  item_prompt :: string
  item_timestamp :: int
  item_sourceImage :: "string option"
  item_imageBytes :: "string option"

record focused_view =
  isOpen :: bool
  mediaItems :: "MediaItem list"
  initialIndex :: nat

record improve_modal =
  modal_isOpen :: bool
  imageUrl :: string
  modal_imageBytes :: string
  originalPrompt :: string

text \<open>
  The state of the \<open>ContentGrid\<close> component, with the two effects its handlers have
  outside React state: the \<open>fetch\<close> calls issued and the \<open>alert\<close> messages shown,
  oldest first.
\<close>

record content_grid =
  generations :: "Generation list"
  showApiKeyDialog :: bool
  focusedView :: focused_view
  improveImageModal :: improve_modal
  requests :: "fetch_request list"
  alerts :: "string list"

subsection \<open>The three updaters passed to \<open>setGenerations\<close>\<close>

text \<open>\<open>prev => [loadingGeneration, ...prev]\<close>\<close>

definition beginGeneration :: "Generation \<Rightarrow> Generation list \<Rightarrow> Generation list" where
  "beginGeneration loadingGeneration prev = loadingGeneration # prev"

text \<open>\<open>prev => prev.map(gen => gen.id === loadingGeneration.id ? completedGeneration : gen)\<close>\<close>

definition completeGeneration ::
    "Generation \<Rightarrow> Generation \<Rightarrow> Generation list \<Rightarrow> Generation list" where
  "completeGeneration loadingGeneration completedGeneration prev =
     map (\<lambda>gen. if gen_id gen = gen_id loadingGeneration then completedGeneration else gen) prev"

text \<open>\<open>prev => prev.filter(gen => gen.id !== loadingGeneration.id)\<close>\<close>

definition failGeneration :: "Generation \<Rightarrow> Generation list \<Rightarrow> Generation list" where
  "failGeneration loadingGeneration prev =
     filter (\<lambda>gen. gen_id gen \<noteq> gen_id loadingGeneration) prev"

subsection \<open>The completed records built from a response\<close>

definition toImageData :: "api_image \<Rightarrow> image_data" where
  "toImageData img = \<lparr>url = img_url img, imageBytes = img_imageBytes img, isSample = None\<rparr>"

definition completedImageGeneration :: "Generation \<Rightarrow> api_image list \<Rightarrow> Generation" where
  "completedImageGeneration loadingGeneration imgs =
     ImageGeneration (gen_id loadingGeneration) (prompt loadingGeneration)
       (map toImageData imgs) (timestamp loadingGeneration) False"

definition completedVideoGeneration :: "Generation \<Rightarrow> api_video list \<Rightarrow> Generation" where
  "completedVideoGeneration loadingGeneration vids =
     VideoGeneration (gen_id loadingGeneration) (prompt loadingGeneration)
       (map vid_url vids) (timestamp loadingGeneration) False None"

definition completedImageToVideo ::
    "string \<Rightarrow> Generation \<Rightarrow> api_video list \<Rightarrow> Generation" where
  "completedImageToVideo imgUrl loadingGeneration vids =
     VideoGeneration (gen_id loadingGeneration) (prompt loadingGeneration)
       (map vid_url vids) (timestamp loadingGeneration) False (Some imgUrl)"

definition completedImprovedGeneration ::
    "Generation \<Rightarrow> string option \<Rightarrow> api_image list \<Rightarrow> Generation" where
  "completedImprovedGeneration loadingGeneration enhanced imgs =
     ImageGeneration (gen_id loadingGeneration)
       (or_else enhanced (prompt loadingGeneration))
       (map toImageData imgs) (timestamp loadingGeneration) False"

subsection \<open>The \<open>try\<close> blocks\<close>

text \<open>
  Each \<open>try\<close> block either throws an \<open>Error\<close>, whose message is the \<open>Inl\<close> value, or
  reaches its \<open>setGenerations\<close> call with the completed record, the \<open>Inr\<close> value. A body
  with \<open>success\<close> set and no \<open>images\<close> (or \<open>videos\<close>) array makes \<open>.map\<close> throw a
  \<open>TypeError\<close>, and so does a \<open>null\<close> entry of \<open>videos\<close> when its \<open>url\<close> is read; the
  two messages are given as V8 words them.
\<close>

definition undefinedMap :: string where
  "undefinedMap = ''Cannot read properties of undefined (reading 'map')''"

definition tryImage :: "Generation \<Rightarrow> fetch_outcome \<Rightarrow> string + Generation" where
  "tryImage loadingGeneration outcome =
     (case outcome of
        Rejected msg \<Rightarrow> Inl msg
      | Resolved d \<Rightarrow>
          if success d = Some True then
            (case data_images d of
               None \<Rightarrow> Inl undefinedMap
             | Some imgs \<Rightarrow> Inr (completedImageGeneration loadingGeneration imgs))
          else Inl (or_else (data_error d) ''Image generation failed''))"

definition nullUrl :: string where
  "nullUrl = ''Cannot read properties of null (reading 'url')''"

definition tryVideo :: "Generation \<Rightarrow> fetch_outcome \<Rightarrow> string + Generation" where
  "tryVideo loadingGeneration outcome =
     (case outcome of
        Rejected msg \<Rightarrow> Inl msg
      | Resolved d \<Rightarrow>
          if success d = Some True then
            (case data_videos d of
               None \<Rightarrow> Inl undefinedMap
             | Some vids \<Rightarrow>
                 (case those vids of
                    None \<Rightarrow> Inl nullUrl
                  | Some vs \<Rightarrow> Inr (completedVideoGeneration loadingGeneration vs)))
          else Inl (or_else (data_error d) ''Video generation failed''))"

definition tryImageToVideo ::
    "string \<Rightarrow> Generation \<Rightarrow> fetch_outcome \<Rightarrow> string + Generation" where
  "tryImageToVideo imgUrl loadingGeneration outcome =
     (case outcome of
        Rejected msg \<Rightarrow> Inl msg
      | Resolved d \<Rightarrow>
          if success d = Some True then
            (case data_videos d of
               None \<Rightarrow> Inl undefinedMap
             | Some vids \<Rightarrow>
                 (case those vids of
                    None \<Rightarrow> Inl nullUrl
                  | Some vs \<Rightarrow> Inr (completedImageToVideo imgUrl loadingGeneration vs)))
          else Inl (or_else (data_error d) ''Video conversion failed''))"

definition tryImproveImage :: "Generation \<Rightarrow> fetch_outcome \<Rightarrow> string + Generation" where
  "tryImproveImage loadingGeneration outcome =
     (case outcome of
        Rejected msg \<Rightarrow> Inl msg
      | Resolved d \<Rightarrow>
          if success d = Some True then
            (case data_images d of
               None \<Rightarrow> Inl undefinedMap
             | Some imgs \<Rightarrow>
                 Inr (completedImprovedGeneration loadingGeneration (data_enhancedPrompt d) imgs))
          else Inl (or_else (data_error d) ''Image improvement failed''))"

subsection \<open>The handlers\<close>

text \<open>
  An \<open>async\<close> handler runs in two steps. The first, up to the \<open>await fetch\<close>, reads the
  clock (\<open>Date.now()\<close> for the id, \<open>new Date()\<close> for the timestamp) and the stored API
  key, inserts the loading record and issues the request. The second runs when the
  response has arrived, on whatever the state is by then: it either replaces the loading
  record or, in the \<open>catch\<close> block, removes it and shows the error.
\<close>

definition catchError ::
    "string \<Rightarrow> Generation \<Rightarrow> string \<Rightarrow> content_grid \<Rightarrow> content_grid" where
  "catchError label loadingGeneration errorMessage st =
     (let st' = st\<lparr>generations := failGeneration loadingGeneration (generations st)\<rparr>
      in if str_includes errorMessage ''API key'' then st'\<lparr>showApiKeyDialog := True\<rparr>
         else st'\<lparr>alerts := alerts st' @ [label @ '' failed: '' @ errorMessage]\<rparr>)"

definition settle ::
    "string \<Rightarrow> Generation \<Rightarrow> string + Generation \<Rightarrow> content_grid \<Rightarrow> content_grid" where
  "settle label loadingGeneration attempt st =
     (case attempt of
        Inr completedGeneration \<Rightarrow>
          st\<lparr>generations :=
               completeGeneration loadingGeneration completedGeneration (generations st)\<rparr>
      | Inl errorMessage \<Rightarrow> catchError label loadingGeneration errorMessage st)"

definition handleNewGeneration_begin ::
    "nat \<Rightarrow> int \<Rightarrow> string option \<Rightarrow> media_type \<Rightarrow> string \<Rightarrow> content_grid
      \<Rightarrow> Generation \<times> content_grid" where
  "handleNewGeneration_begin dateNow newDate userApiKey ty prmpt st =
     (let loadingGeneration =
            LoadingGeneration (''loading-'' @ show_nat dateNow) prmpt ty newDate None
      in (loadingGeneration,
          st\<lparr>generations := beginGeneration loadingGeneration (generations st),
             requests := requests st @
               [case ty of ImageKind \<Rightarrow> GenerateImages prmpt userApiKey
                         | VideoKind \<Rightarrow> GenerateVideos prmpt userApiKey]\<rparr>))"

definition handleNewGeneration_finish ::
    "media_type \<Rightarrow> Generation \<Rightarrow> fetch_outcome \<Rightarrow> content_grid \<Rightarrow> content_grid" where
  "handleNewGeneration_finish ty loadingGeneration outcome st =
     settle ''Generation'' loadingGeneration
       (case ty of ImageKind \<Rightarrow> tryImage loadingGeneration outcome
                 | VideoKind \<Rightarrow> tryVideo loadingGeneration outcome) st"

definition handleImageToVideo_begin ::
    "nat \<Rightarrow> int \<Rightarrow> string option \<Rightarrow> string \<Rightarrow> string \<Rightarrow> string \<Rightarrow> content_grid
      \<Rightarrow> Generation \<times> content_grid" where
  "handleImageToVideo_begin dateNow newDate userApiKey imgUrl imgBytes prmpt st =
     (let loadingGeneration =
            LoadingGeneration (''video-loading-'' @ show_nat dateNow)
              (prmpt @ '' - animated video'') VideoKind newDate (Some imgUrl)
      in (loadingGeneration,
          st\<lparr>generations := beginGeneration loadingGeneration (generations st),
             requests := requests st @
               [ImageToVideo (prmpt @ '' - animated video'') imgBytes userApiKey]\<rparr>))"

definition handleImageToVideo_finish ::
    "string \<Rightarrow> Generation \<Rightarrow> fetch_outcome \<Rightarrow> content_grid \<Rightarrow> content_grid" where
  "handleImageToVideo_finish imgUrl loadingGeneration outcome st =
     settle ''Video conversion'' loadingGeneration
       (tryImageToVideo imgUrl loadingGeneration outcome) st"

definition handleOpenImproveModal ::
    "string \<Rightarrow> string \<Rightarrow> string \<Rightarrow> content_grid \<Rightarrow> content_grid" where
  "handleOpenImproveModal imgUrl imgBytes origPrompt st =
     st\<lparr>improveImageModal :=
          \<lparr>modal_isOpen = True, imageUrl = imgUrl, modal_imageBytes = imgBytes,
           originalPrompt = origPrompt\<rparr>\<rparr>"

definition handleImproveImage_begin ::
    "nat \<Rightarrow> int \<Rightarrow> string option \<Rightarrow> string \<Rightarrow> content_grid
      \<Rightarrow> Generation \<times> content_grid" where
  "handleImproveImage_begin dateNow newDate userApiKey improvementPrompt st =
     (let loadingGeneration =
            LoadingGeneration (''improve-loading-'' @ show_nat dateNow)
              (originalPrompt (improveImageModal st) @ '' - improved: '' @ improvementPrompt)
              ImageKind newDate None
      in (loadingGeneration,
          st\<lparr>generations := beginGeneration loadingGeneration (generations st),
             requests := requests st @
               [ImproveImage (originalPrompt (improveImageModal st)) improvementPrompt
                  (modal_imageBytes (improveImageModal st)) userApiKey]\<rparr>))"

definition handleImproveImage_finish ::
    "Generation \<Rightarrow> fetch_outcome \<Rightarrow> content_grid \<Rightarrow> content_grid" where
  "handleImproveImage_finish loadingGeneration outcome st =
     settle ''Image improvement'' loadingGeneration
       (tryImproveImage loadingGeneration outcome) st"

subsection \<open>Flattening the timeline: \<open>getAllMediaItems\<close>\<close>

definition imageItem :: "Generation \<Rightarrow> nat \<Rightarrow> image_data \<Rightarrow> MediaItem" where
  "imageItem generation index img =
     \<lparr>item_id = gen_id generation @ ''-img-'' @ show_nat index,
      item_type = ImageKind,
      item_url = url img,
      item_prompt = prompt generation,
      item_timestamp = timestamp generation,
      item_sourceImage = None,
      item_imageBytes = imageBytes img\<rparr>"

definition videoItem :: "Generation \<Rightarrow> nat \<Rightarrow> string \<Rightarrow> MediaItem" where
  "videoItem generation index vid =
     \<lparr>item_id = gen_id generation @ ''-vid-'' @ show_nat index,
      item_type = VideoKind,
      item_url = vid,
      item_prompt = prompt generation,
      item_timestamp = timestamp generation,
      item_sourceImage = sourceImage generation,
      item_imageBytes = None\<rparr>"

text \<open>What one iteration of \<open>generations.forEach\<close> pushes onto \<open>mediaItems\<close>.\<close>

definition pushItems :: "Generation \<Rightarrow> MediaItem list" where
  "pushItems generation =
     (if \<not> isLoading generation then
        (case generation of
           ImageGeneration _ _ imgs _ _ \<Rightarrow>
             map (\<lambda>(index, img). imageItem generation index img) (enumerate 0 imgs)
         | VideoGeneration _ _ vids _ _ _ \<Rightarrow>
             map (\<lambda>(index, vid). videoItem generation index vid) (enumerate 0 vids)
         | LoadingGeneration _ _ _ _ _ \<Rightarrow> [])
      else [])"

text \<open>
  \<open>mediaItems.sort((a, b) => b.timestamp.getTime() - a.timestamp.getTime())\<close>:
  \<open>Array.prototype.sort\<close> is stable, so the result is the stable sort by descending
  timestamp, which \<open>sort_key\<close> computes on the negated timestamp.
\<close>

definition getAllMediaItems :: "Generation list \<Rightarrow> MediaItem list" where
  "getAllMediaItems gens =
     sort_key (\<lambda>m. - item_timestamp m) (concat (map pushItems gens))"

text \<open>
  The item that a generation and a local index denote: the one \<open>getAllMediaItems\<close>
  builds for that image or video of a record that is not loading, if there is one.
\<close>

definition mediaItemOf :: "Generation \<Rightarrow> nat \<Rightarrow> MediaItem option" where
  "mediaItemOf generation index =
     (if isLoading generation then None
      else
        (case generation of
           ImageGeneration _ _ imgs _ _ \<Rightarrow>
             if index < length imgs then Some (imageItem generation index (imgs ! index))
             else None
         | VideoGeneration _ _ vids _ _ _ \<Rightarrow>
             if index < length vids then Some (videoItem generation index (vids ! index))
             else None
         | LoadingGeneration _ _ _ _ _ \<Rightarrow> None))"

subsection \<open>Opening the focused view: \<open>openFocusedView\<close>\<close>

definition mediaCount :: "Generation \<Rightarrow> nat" where
  "mediaCount gen =
     (case gen of
        ImageGeneration _ _ imgs _ _ \<Rightarrow> length imgs
      | VideoGeneration _ _ vids _ _ _ \<Rightarrow> length vids
      | LoadingGeneration _ _ _ _ _ \<Rightarrow> 0)"

text \<open>The \<open>for\<close> loop over \<open>generations\<close>, with \<open>globalIndex\<close> as the accumulator.\<close>

fun globalIndexLoop :: "Generation list \<Rightarrow> string \<Rightarrow> nat \<Rightarrow> nat \<Rightarrow> nat" where
  "globalIndexLoop [] generationId itemIndex globalIndex = globalIndex"
| "globalIndexLoop (gen # rest) generationId itemIndex globalIndex =
     (if isLoading gen then globalIndexLoop rest generationId itemIndex globalIndex
      else if gen_id gen = generationId then globalIndex + itemIndex
      else globalIndexLoop rest generationId itemIndex (globalIndex + mediaCount gen))"

definition locateGlobalIndex :: "Generation list \<Rightarrow> string \<Rightarrow> nat \<Rightarrow> nat" where
  "locateGlobalIndex gens generationId itemIndex =
     globalIndexLoop gens generationId itemIndex 0"

definition openFocusedView :: "string \<Rightarrow> nat \<Rightarrow> content_grid \<Rightarrow> content_grid" where
  "openFocusedView generationId itemIndex st =
     st\<lparr>focusedView :=
          \<lparr>isOpen = True,
           mediaItems = getAllMediaItems (generations st),
           initialIndex = locateGlobalIndex (generations st) generationId itemIndex\<rparr>\<rparr>"

section \<open>The image grid: \<open>handleConvertToVideo\<close>\<close>

text \<open>
  The grid's own state is the index being converted and what it wrote with
  \<open>console.error\<close>. The optional \<open>onImageToVideo\<close> prop acts on the state of the parent
  component.
\<close>

record image_grid =
  convertingToVideo :: "nat option"
  consoleErrors :: "string list"

definition rejectConversion :: "image_grid \<Rightarrow> image_grid" where
  "rejectConversion ui =
     ui\<lparr>consoleErrors := consoleErrors ui @
          [''Image to video conversion not available for sample images'']\<rparr>"

definition handleConvertToVideo ::
    "(string \<Rightarrow> string \<Rightarrow> string \<Rightarrow> 'p \<Rightarrow> 'p) option \<Rightarrow> Generation \<Rightarrow> image_data \<Rightarrow> nat
      \<Rightarrow> image_grid \<times> 'p \<Rightarrow> image_grid \<times> 'p" where
  "handleConvertToVideo onImageToVideo generation imageData index s =
     (case s of (ui, parent) \<Rightarrow>
        (case onImageToVideo of
           None \<Rightarrow> (rejectConversion ui, parent)
         | Some callback \<Rightarrow>
             (case imageBytes imageData of
                None \<Rightarrow> (rejectConversion ui, parent)
              | Some bytes \<Rightarrow>
                  if bytes = [] \<or> isSample imageData = Some True
                  then (rejectConversion ui, parent)
                  else (ui\<lparr>convertingToVideo := None\<rparr>,
                        callback (url imageData) bytes (prompt generation) parent))))"

text \<open>The prop as \<open>ContentGrid\<close> passes it: the synchronous part of \<open>handleImageToVideo\<close>.\<close>

definition contentGridImageToVideo ::
    "nat \<Rightarrow> int \<Rightarrow> string option \<Rightarrow> string \<Rightarrow> string \<Rightarrow> string \<Rightarrow> content_grid \<Rightarrow> content_grid" where
  "contentGridImageToVideo dateNow newDate userApiKey imgUrl imgBytes prmpt st =
     snd (handleImageToVideo_begin dateNow newDate userApiKey imgUrl imgBytes prmpt st)"

section \<open>The focused media view\<close>

text \<open>
  The component's props and state, the events it listens to, and the calls it makes on
  its props (\<open>onClose\<close>, \<open>onImageImprove\<close>, \<open>onImageToVideo\<close>) or on the document (the
  download link, as its \<open>href\<close> and file name).
\<close>

record focused_media_view =
  view_isOpen :: bool
  view_mediaItems :: "MediaItem list"
  has_onImageToVideo :: bool
  has_onImageImprove :: bool
  currentIndex :: int
  accumulatedDelta :: int
  isScrolling :: bool

datatype view_call =
    OnClose
  | OnImageImprove string string string
  | OnImageToVideo string string string
  | Download string string

datatype view_event =
    InitialIndex nat
  | KeyDown string
  | PageWheel int
  | ScrollTimeout
  | ClickClose
  | ClickDownload
  | ClickImproveImage
  | ClickAnimate
  | ClickThumbnail nat
  | ClickPrevious
  | ClickNext

definition currentItem :: "focused_media_view \<Rightarrow> MediaItem option" where
  "currentItem v =
     (if 0 \<le> currentIndex v \<and> nat (currentIndex v) < length (view_mediaItems v)
      then Some (view_mediaItems v ! nat (currentIndex v)) else None)"

definition lastIndex :: "focused_media_view \<Rightarrow> int" where
  "lastIndex v = int (length (view_mediaItems v)) - 1"

definition handleKeyDown ::
    "string \<Rightarrow> focused_media_view \<Rightarrow> focused_media_view \<times> view_call list" where
  "handleKeyDown k v =
     (if \<not> view_isOpen v then (v, [])
      else if k = ''Escape'' then (v, [OnClose])
      else if k = ''ArrowLeft'' then (v\<lparr>currentIndex := max 0 (currentIndex v - 1)\<rparr>, [])
      else if k = ''ArrowRight''
        then (v\<lparr>currentIndex := min (lastIndex v) (currentIndex v + 1)\<rparr>, [])
      else (v, []))"

definition handlePageWheel ::
    "int \<Rightarrow> focused_media_view \<Rightarrow> focused_media_view \<times> view_call list" where
  "handlePageWheel deltaY v =
     (if \<not> view_isOpen v then (v, [])
      else
        (let acc = accumulatedDelta v + deltaY in
         if 100 \<le> \<bar>acc\<bar> \<and> \<not> isScrolling v then
           (let direction = (if 0 < acc then 1 else - 1) in
            (v\<lparr>currentIndex := max 0 (min (lastIndex v) (currentIndex v + direction)),
               accumulatedDelta := 0, isScrolling := True\<rparr>, []))
         else (v\<lparr>accumulatedDelta := acc\<rparr>, [])))"

definition handleDownload :: "focused_media_view \<Rightarrow> view_call list" where
  "handleDownload v =
     (case currentItem v of
        None \<Rightarrow> []
      | Some item \<Rightarrow>
          [Download (item_url item)
             ((case item_type item of ImageKind \<Rightarrow> ''image'' | VideoKind \<Rightarrow> ''video'') @ ''_'' @
              item_id item @ ''.'' @
              (if item_type item = VideoKind then ''mp4'' else ''png''))])"

text \<open>
  Nothing is rendered, and so nothing can be clicked, unless the view is open and has a
  current item; the two action buttons are rendered under their own conditions.
\<close>

definition handleClick ::
    "view_event \<Rightarrow> MediaItem \<Rightarrow> focused_media_view \<Rightarrow> focused_media_view \<times> view_call list" where
  "handleClick e item v =
     (case e of
        ClickClose \<Rightarrow> (v, [OnClose])
      | ClickDownload \<Rightarrow> (v, handleDownload v)
      | ClickImproveImage \<Rightarrow>
          (case item_imageBytes item of
             None \<Rightarrow> (v, [])
           | Some bytes \<Rightarrow>
               if item_type item = ImageKind \<and> has_onImageImprove v \<and> bytes \<noteq> []
               then (v, [OnImageImprove (item_url item) bytes (item_prompt item), OnClose])
               else (v, []))
      | ClickAnimate \<Rightarrow>
          if item_type item = ImageKind \<and> has_onImageToVideo v then (v, [OnClose]) else (v, [])
      | ClickThumbnail index \<Rightarrow> (v\<lparr>currentIndex := int index\<rparr>, [])
      | ClickPrevious \<Rightarrow> (v\<lparr>currentIndex := max 0 (currentIndex v - 1)\<rparr>, [])
      | ClickNext \<Rightarrow> (v\<lparr>currentIndex := min (lastIndex v) (currentIndex v + 1)\<rparr>, [])
      | _ \<Rightarrow> (v, []))"

definition viewEvent ::
    "view_event \<Rightarrow> focused_media_view \<Rightarrow> focused_media_view \<times> view_call list" where
  "viewEvent e v =
     (case e of
        InitialIndex index \<Rightarrow> (v\<lparr>currentIndex := int index\<rparr>, [])
      | KeyDown k \<Rightarrow> handleKeyDown k v
      | PageWheel deltaY \<Rightarrow> handlePageWheel deltaY v
      | ScrollTimeout \<Rightarrow> (v\<lparr>isScrolling := False\<rparr>, [])
      | _ \<Rightarrow>
          (case currentItem v of
             None \<Rightarrow> (v, [])
           | Some item \<Rightarrow> if view_isOpen v then handleClick e item v else (v, [])))"

text \<open>A session of the view: the calls made over a sequence of events, in order.\<close>

fun viewEvents ::
    "view_event list \<Rightarrow> focused_media_view \<Rightarrow> focused_media_view \<times> view_call list" where
  "viewEvents [] v = (v, [])"
| "viewEvents (e # es) v =
     (case viewEvent e v of (v', calls) \<Rightarrow>
        (case viewEvents es v' of (v'', calls') \<Rightarrow> (v'', calls @ calls')))"

section \<open>The API routes\<close>

text \<open>
  A call that may throw returns a \<open>js_result\<close>. A response is its HTTP status and its
  JSON body.
\<close>

record js_error =
  err_message :: string
  err_name :: string

datatype 'a js_result = Throws js_error | Returns 'a

record http_response =
  status :: nat
  body :: api_data

definition emptyBody :: api_data where
  "emptyBody =
     \<lparr>success = None, data_images = None, data_videos = None, data_prompt = None,
      data_error = None, data_details = None, data_originalPrompt = None,
      data_improvementPrompt = None, data_enhancedPrompt = None\<rparr>"

text \<open>\<open>NextResponse.json({ error }, { status })\<close>\<close>

definition errorOnly :: "nat \<Rightarrow> string \<Rightarrow> http_response" where
  "errorOnly code msg = \<lparr>status = code, body = emptyBody\<lparr>data_error := Some msg\<rparr>\<rparr>"

text \<open>The outer \<open>catch\<close> of the image routes:
  \<open>{ success: false, error: err?.message || fallback, details: err?.name || "Unknown error" }\<close>
  with status 500.\<close>

definition caughtResponse :: "js_error \<Rightarrow> string \<Rightarrow> http_response" where
  "caughtResponse err fallback =
     \<lparr>status = 500,
      body = emptyBody\<lparr>success := Some False,
               data_error := Some (or_else (Some (err_message err)) fallback),
               data_details := Some (or_else (Some (err_name err)) ''Unknown error'')\<rparr>\<rparr>"

definition noApiKey :: string where
  "noApiKey = ''No API key provided. Please add your Google AI API key in the settings.''"

subsection \<open>\<open>/api/generate-images\<close>\<close>

record image_request =
  req_prompt :: "string option"
  req_apiKey :: "string option"
  req_imageBytes :: "string option"

record inline_data =
  inline_bytes :: "string option"
  inline_mimeType :: "string option"

record content_part =
  part_text :: "string option"
  part_inlineData :: "inline_data option"

text \<open>A candidate of the model's response, as its \<open>content?.parts\<close>.\<close>

record candidate =
  candidate_parts :: "content_part list option"

text \<open>The two nested \<open>for\<close> loops that return the first part with \<open>inlineData?.data\<close>.\<close>

fun firstInlineData :: "content_part list \<Rightarrow> (string \<times> string option) option" where
  "firstInlineData [] = None"
| "firstInlineData (p # ps) =
     (case part_inlineData p of
        None \<Rightarrow> firstInlineData ps
      | Some d \<Rightarrow>
          (case inline_bytes d of
             None \<Rightarrow> firstInlineData ps
           | Some bytes \<Rightarrow> if bytes = [] then firstInlineData ps
                           else Some (bytes, inline_mimeType d)))"

fun firstImage :: "candidate list \<Rightarrow> (string \<times> string option) option" where
  "firstImage [] = None"
| "firstImage (c # cs) =
     (case candidate_parts c of
        None \<Rightarrow> firstImage cs
      | Some ps \<Rightarrow>
          (case firstInlineData ps of
             None \<Rightarrow> firstImage cs
           | Some found \<Rightarrow> Some found))"

text \<open>
  One of the four sub-requests, given what \<open>ai.models.generateContent\<close> did (threw, or
  returned \<open>response.candidates\<close>) and the clock reading at its return: an image, or
  \<open>null\<close>.
\<close>

definition generatedImage ::
    "nat \<Rightarrow> nat \<Rightarrow> candidate list option js_result \<Rightarrow> api_image option" where
  "generatedImage dateNow index result =
     (case result of
        Throws _ \<Rightarrow> None
      | Returns candidates \<Rightarrow>
          (case firstImage (case candidates of None \<Rightarrow> [] | Some cs \<Rightarrow> cs) of
             None \<Rightarrow> None
           | Some (bytes, mime) \<Rightarrow>
               Some \<lparr>img_id = show_nat dateNow @ ''-'' @ show_nat index,
                     img_url = ''data:'' @ or_else mime ''image/png'' @ '';base64,'' @ bytes,
                     img_imageBytes = Some bytes\<rparr>))"

definition contentParts :: "string \<Rightarrow> string option \<Rightarrow> content_part list" where
  "contentParts prmpt imgBytes =
     \<lparr>part_text = Some prmpt, part_inlineData = None\<rparr> #
     (if truthy imgBytes
      then [\<lparr>part_text = None,
             part_inlineData =
               Some \<lparr>inline_bytes = imgBytes, inline_mimeType = Some ''image/png''\<rparr>\<rparr>]
      else [])"

text \<open>
  The route, given the environment's API key, the clock reading of each sub-request, the
  model (what \<open>generateContent\<close> does on the sub-request of each index) and the parsed
  request body, or the error \<open>request.json()\<close> threw. \<open>Promise.all\<close> keeps the results
  in index order and \<open>filter(Boolean)\<close> drops the \<open>null\<close>s.
\<close>

definition POST_generate_images ::
    "string option \<Rightarrow> (nat \<Rightarrow> nat) \<Rightarrow> (nat \<Rightarrow> content_part list \<Rightarrow> candidate list option js_result)
      \<Rightarrow> image_request js_result \<Rightarrow> http_response" where
  "POST_generate_images envKey clock generateContent request =
     (case request of
        Throws err \<Rightarrow> caughtResponse err ''Failed to generate images''
      | Returns req \<Rightarrow>
          (case req_prompt req of
             None \<Rightarrow> errorOnly 400 ''Prompt is required''
           | Some prmpt \<Rightarrow>
               if prmpt = [] then errorOnly 400 ''Prompt is required''
               else if \<not> truthy (or_opt (req_apiKey req) envKey) then errorOnly 401 noApiKey
               else
                 (let generatedImages =
                        map (\<lambda>index. generatedImage (clock index) index
                               (generateContent index (contentParts prmpt (req_imageBytes req))))
                          [0..<4];
                      imgs = List.map_filter (\<lambda>x. x) generatedImages
                  in \<lparr>status = 200,
                      body = emptyBody\<lparr>success := Some True, data_images := Some imgs,
                               data_prompt := Some prmpt\<rparr>\<rparr>)))"

subsection \<open>\<open>/api/generate-videos\<close> and \<open>/api/image-to-video\<close>\<close>

record generated_video =
  video_uri :: "string option"

record operation =
  op_done :: bool
  generatedVideos :: "generated_video list option"

definition maxAttempts :: nat where
  "maxAttempts = 60"

definition pollInterval :: nat where
  "pollInterval = 10000"

text \<open>
  The polling loop, the same in both routes. Its state is the operation, \<open>attempts\<close> and
  the milliseconds spent so far in \<open>setTimeout\<close>; the status check of each attempt is
  what \<open>ai.operations.getVideosOperation\<close> does on the current operation. A check that
  throws leaves the loop with the error.
\<close>

function pollOperation ::
    "(nat \<Rightarrow> operation \<Rightarrow> operation js_result) \<Rightarrow> operation \<Rightarrow> nat \<Rightarrow> nat
      \<Rightarrow> js_error + (operation \<times> nat \<times> nat)" where
  "pollOperation getVideosOperation op attempts waited =
     (if \<not> op_done op \<and> attempts < maxAttempts then
        (case getVideosOperation attempts op of
           Throws err \<Rightarrow> Inl err
         | Returns op' \<Rightarrow>
             pollOperation getVideosOperation op' (attempts + 1) (waited + pollInterval))
      else Inr (op, attempts, waited))"
  by pat_completeness auto
termination
  by (relation "measure (\<lambda>(g, op, attempts, waited). maxAttempts - attempts)") auto

declare pollOperation.simps [simp del]

text \<open>
  \<open>generatedVideos?.map(async ...).filter(Boolean) || []\<close> under \<open>Promise.all\<close>: the
  filter runs on the promises, which are all truthy, so a video without a \<open>uri\<close> stays in
  the result as \<open>null\<close>.
\<close>

definition videoEntry :: "nat \<Rightarrow> string \<Rightarrow> nat \<Rightarrow> generated_video \<Rightarrow> api_video option" where
  "videoEntry dateNow apiKey index g =
     (case video_uri g of
        None \<Rightarrow> None
      | Some uri \<Rightarrow>
          if uri = [] then None
          else Some \<lparr>vid_id = show_nat dateNow @ ''-'' @ show_nat index,
                     vid_url = uri @ ''&key='' @ apiKey,
                     vid_uri = uri\<rparr>)"

definition videosOf :: "(nat \<Rightarrow> nat) \<Rightarrow> string \<Rightarrow> operation \<Rightarrow> api_video option list" where
  "videosOf clock apiKey op =
     (case generatedVideos op of
        None \<Rightarrow> []
      | Some gs \<Rightarrow> map (\<lambda>(index, g). videoEntry (clock index) apiKey index g) (enumerate 0 gs))"

text \<open>What both routes do with the operation that \<open>generateVideos\<close> returned.\<close>

definition awaitVideos ::
    "string \<Rightarrow> (nat \<Rightarrow> nat) \<Rightarrow> (nat \<Rightarrow> operation \<Rightarrow> operation js_result) \<Rightarrow> string \<Rightarrow> string
      \<Rightarrow> operation js_result \<Rightarrow> http_response" where
  "awaitVideos caught clock getVideosOperation apiKey prmpt started =
     (case started of
        Throws _ \<Rightarrow> errorOnly 500 caught
      | Returns operation0 \<Rightarrow>
          (case pollOperation getVideosOperation operation0 0 0 of
             Inl _ \<Rightarrow> errorOnly 500 caught
           | Inr (op, attempts, waited) \<Rightarrow>
               if \<not> op_done op then errorOnly 408 ''Video generation timed out''
               else \<lparr>status = 200,
                     body = emptyBody\<lparr>success := Some True,
                              data_videos := Some (videosOf clock apiKey op),
                              data_prompt := Some prmpt\<rparr>\<rparr>))"

definition POST_generate_videos ::
    "string option \<Rightarrow> (nat \<Rightarrow> nat) \<Rightarrow> (string \<Rightarrow> operation js_result)
      \<Rightarrow> (nat \<Rightarrow> operation \<Rightarrow> operation js_result) \<Rightarrow> image_request js_result
      \<Rightarrow> http_response" where
  "POST_generate_videos envKey clock generateVideos getVideosOperation request =
     (case request of
        Throws _ \<Rightarrow> errorOnly 500 ''Failed to generate videos''
      | Returns req \<Rightarrow>
          if \<not> truthy (req_prompt req) then errorOnly 400 ''Prompt is required''
          else if \<not> truthy (or_opt (req_apiKey req) envKey) then errorOnly 401 noApiKey
          else awaitVideos ''Failed to generate videos'' clock getVideosOperation
                 (or_else (or_opt (req_apiKey req) envKey) [])
                 (or_else (req_prompt req) [])
                 (generateVideos (or_else (req_prompt req) [])))"

definition POST_image_to_video ::
    "string option \<Rightarrow> (nat \<Rightarrow> nat) \<Rightarrow> (string \<Rightarrow> string \<Rightarrow> operation js_result)
      \<Rightarrow> (nat \<Rightarrow> operation \<Rightarrow> operation js_result) \<Rightarrow> image_request js_result
      \<Rightarrow> http_response" where
  "POST_image_to_video envKey clock generateVideos getVideosOperation request =
     (case request of
        Throws _ \<Rightarrow> errorOnly 500 ''Failed to convert image to video''
      | Returns req \<Rightarrow>
          if \<not> truthy (req_prompt req) \<or> \<not> truthy (req_imageBytes req)
          then errorOnly 400 ''Prompt and image are required''
          else if \<not> truthy (or_opt (req_apiKey req) envKey) then errorOnly 401 noApiKey
          else awaitVideos ''Failed to convert image to video'' clock getVideosOperation
                 (or_else (or_opt (req_apiKey req) envKey) [])
                 (or_else (req_prompt req) [])
                 (generateVideos (or_else (req_prompt req) [])
                    (or_else (req_imageBytes req) [])))"

subsection \<open>\<open>/api/improve-image\<close>\<close>

record improve_request =
  imp_originalPrompt :: "string option"
  imp_improvementPrompt :: "string option"
  imp_imageBytes :: "string option"
  imp_apiKey :: "string option"

text \<open>An entry of \<open>response.generatedImages\<close>, as its \<open>image?.imageBytes\<close>.\<close>

record generated_image =
  image_bytes :: "string option"

definition composePrompt :: "string \<Rightarrow> string \<Rightarrow> string" where
  "composePrompt origPrompt improvementPrompt =
     origPrompt @ ''. Please improve this image by: '' @ improvementPrompt"

definition improvedImage :: "nat \<Rightarrow> nat \<Rightarrow> generated_image \<Rightarrow> api_image option" where
  "improvedImage dateNow index g =
     (case image_bytes g of
        None \<Rightarrow> None
      | Some bytes \<Rightarrow>
          if bytes = [] then None
          else Some \<lparr>img_id = ''improved-'' @ show_nat dateNow @ ''-'' @ show_nat index,
                     img_url = ''data:image/png;base64,'' @ bytes,
                     img_imageBytes = Some bytes\<rparr>)"

text \<open>
  The route, given the environment's API key, the clock, the model (what
  \<open>ai.models.generateImages\<close> does on a prompt: throws, or returns
  \<open>response.generatedImages\<close>) and the request.
\<close>

definition POST_improve_image ::
    "string option \<Rightarrow> (nat \<Rightarrow> nat) \<Rightarrow> (string \<Rightarrow> generated_image list option js_result)
      \<Rightarrow> improve_request js_result \<Rightarrow> http_response" where
  "POST_improve_image envKey clock generateImages request =
     (case request of
        Throws err \<Rightarrow> caughtResponse err ''Failed to improve image''
      | Returns req \<Rightarrow>
          if \<not> truthy (imp_originalPrompt req) \<or> \<not> truthy (imp_improvementPrompt req)
          then errorOnly 400 ''Both original and improvement prompts are required''
          else if \<not> truthy (imp_imageBytes req)
          then errorOnly 400 ''Image data is required for improvement''
          else if \<not> truthy (or_opt (imp_apiKey req) envKey) then errorOnly 401 noApiKey
          else
            (let enhancedPrompt =
                   composePrompt (or_else (imp_originalPrompt req) [])
                     (or_else (imp_improvementPrompt req) [])
             in case generateImages enhancedPrompt of
                  Throws err \<Rightarrow> caughtResponse err ''Failed to improve image''
                | Returns generated \<Rightarrow>
                    \<lparr>status = 200,
                     body = emptyBody\<lparr>success := Some True,
                              data_images :=
                                Some (List.map_filter
                                        (\<lambda>(index, g). improvedImage (clock index) index g)
                                        (enumerate 0
                                           (case generated of None \<Rightarrow> [] | Some gs \<Rightarrow> gs))),
                              data_originalPrompt := imp_originalPrompt req,
                              data_improvementPrompt := imp_improvementPrompt req,
                              data_enhancedPrompt := Some enhancedPrompt\<rparr>\<rparr>))"

text \<open>
  The repository holds a second, image-conditioned variant of the route: it sends the
  improvement instruction together with the source image to the image model, four times,
  and extracts the results as \<open>/api/generate-images\<close> does, with ids that start with
  \<open>improved-\<close>.
\<close>

definition conditionedPrompt :: "string \<Rightarrow> string" where
  "conditionedPrompt improvementPrompt = ''Please improve this image by: '' @ improvementPrompt"

definition conditionedParts :: "string \<Rightarrow> string option \<Rightarrow> content_part list" where
  "conditionedParts enhancedPrompt imgBytes =
     [\<lparr>part_text = Some enhancedPrompt, part_inlineData = None\<rparr>,
      \<lparr>part_text = None,
       part_inlineData = Some \<lparr>inline_bytes = imgBytes, inline_mimeType = Some ''image/png''\<rparr>\<rparr>]"

definition improvedFromContent ::
    "nat \<Rightarrow> nat \<Rightarrow> candidate list option js_result \<Rightarrow> api_image option" where
  "improvedFromContent dateNow index result =
     (case result of
        Throws _ \<Rightarrow> None
      | Returns candidates \<Rightarrow>
          (case firstImage (case candidates of None \<Rightarrow> [] | Some cs \<Rightarrow> cs) of
             None \<Rightarrow> None
           | Some (bytes, mime) \<Rightarrow>
               Some \<lparr>img_id = ''improved-'' @ show_nat dateNow @ ''-'' @ show_nat index,
                     img_url = ''data:'' @ or_else mime ''image/png'' @ '';base64,'' @ bytes,
                     img_imageBytes = Some bytes\<rparr>))"

definition POST_improve_image_conditioned ::
    "string option \<Rightarrow> (nat \<Rightarrow> nat) \<Rightarrow> (nat \<Rightarrow> content_part list \<Rightarrow> candidate list option js_result)
      \<Rightarrow> improve_request js_result \<Rightarrow> http_response" where
  "POST_improve_image_conditioned envKey clock generateContent request =
     (case request of
        Throws err \<Rightarrow> caughtResponse err ''Failed to improve image''
      | Returns req \<Rightarrow>
          if \<not> truthy (imp_originalPrompt req) \<or> \<not> truthy (imp_improvementPrompt req)
          then errorOnly 400 ''Both original and improvement prompts are required''
          else if \<not> truthy (imp_imageBytes req)
          then errorOnly 400 ''Image data is required for improvement''
          else if \<not> truthy (or_opt (imp_apiKey req) envKey) then errorOnly 401 noApiKey
          else
            (let enhancedPrompt = conditionedPrompt (or_else (imp_improvementPrompt req) []);
                 generatedImages =
                   map (\<lambda>index. improvedFromContent (clock index) index
                          (generateContent index
                             (conditionedParts enhancedPrompt (imp_imageBytes req))))
                     [0..<4]
             in \<lparr>status = 200,
                 body = emptyBody\<lparr>success := Some True,
                          data_images := Some (List.map_filter (\<lambda>x. x) generatedImages),
                          data_originalPrompt := imp_originalPrompt req,
                          data_improvementPrompt := imp_improvementPrompt req,
                          data_enhancedPrompt := Some enhancedPrompt\<rparr>\<rparr>))"

text \<open>The response as the browser's \<open>fetch\<close> and \<open>response.json()\<close> deliver it.\<close>

definition delivered :: "http_response \<Rightarrow> fetch_outcome" where
  "delivered r = Resolved (body r)"

section \<open>Workflows and scenarios\<close>

text \<open>
  The four generation workflows with their arguments, so that a statement can range over
  them: each is the pair of its handler's two steps.
\<close>

datatype workflow =
    NewGeneration media_type string
  | ImageToVideoFlow string string string
  | ImproveImageFlow string

definition beginOf ::
    "nat \<Rightarrow> int \<Rightarrow> string option \<Rightarrow> workflow \<Rightarrow> content_grid \<Rightarrow> Generation \<times> content_grid" where
  "beginOf dateNow newDate userApiKey w st =
     (case w of
        NewGeneration ty prmpt \<Rightarrow> handleNewGeneration_begin dateNow newDate userApiKey ty prmpt st
      | ImageToVideoFlow imgUrl imgBytes prmpt \<Rightarrow>
          handleImageToVideo_begin dateNow newDate userApiKey imgUrl imgBytes prmpt st
      | ImproveImageFlow improvementPrompt \<Rightarrow>
          handleImproveImage_begin dateNow newDate userApiKey improvementPrompt st)"

definition tryOf :: "workflow \<Rightarrow> Generation \<Rightarrow> fetch_outcome \<Rightarrow> string + Generation" where
  "tryOf w loadingGeneration outcome =
     (case w of
        NewGeneration ty prmpt \<Rightarrow>
          (case ty of ImageKind \<Rightarrow> tryImage loadingGeneration outcome
                    | VideoKind \<Rightarrow> tryVideo loadingGeneration outcome)
      | ImageToVideoFlow imgUrl imgBytes prmpt \<Rightarrow> tryImageToVideo imgUrl loadingGeneration outcome
      | ImproveImageFlow improvementPrompt \<Rightarrow> tryImproveImage loadingGeneration outcome)"

definition finishOf ::
    "workflow \<Rightarrow> Generation \<Rightarrow> fetch_outcome \<Rightarrow> content_grid \<Rightarrow> content_grid" where
  "finishOf w loadingGeneration outcome st =
     (case w of
        NewGeneration ty prmpt \<Rightarrow> handleNewGeneration_finish ty loadingGeneration outcome st
      | ImageToVideoFlow imgUrl imgBytes prmpt \<Rightarrow>
          handleImageToVideo_finish imgUrl loadingGeneration outcome st
      | ImproveImageFlow improvementPrompt \<Rightarrow>
          handleImproveImage_finish loadingGeneration outcome st)"

text \<open>The grid before the sample data is loaded.\<close>

definition emptyGrid :: content_grid where
  "emptyGrid =
     \<lparr>generations = [], showApiKeyDialog = False,
      focusedView = \<lparr>isOpen = False, mediaItems = [], initialIndex = 0\<rparr>,
      improveImageModal =
        \<lparr>modal_isOpen = False, imageUrl = [], modal_imageBytes = [], originalPrompt = []\<rparr>,
      requests = [], alerts = []\<rparr>"

text \<open>
  Two generations begun while \<open>Date.now()\<close> reads the same millisecond: the handler is
  called twice before the clock advances.
\<close>

definition firstBegun :: "Generation \<times> content_grid" where
  "firstBegun =
     handleNewGeneration_begin 1700000000000 1700000000000 None ImageKind ''a red fox'' emptyGrid"

definition secondBegun :: "Generation \<times> content_grid" where
  "secondBegun =
     handleNewGeneration_begin 1700000000000 1700000000000 None ImageKind ''a city skyline''
       (snd firstBegun)"

text \<open>\<open>createSampleGenerations\<close>, called when \<open>Date.now()\<close> reads \<open>now\<close>.\<close>

definition createSampleGenerations :: "int \<Rightarrow> Generation list" where
  "createSampleGenerations now =
     [VideoGeneration ''sample-video-1'' ''a race car formula 1 style in a highspeed track''
        [''/sample-videos/video-1.mp4'', ''/sample-videos/video-2.mp4'']
        (now - 1000 * 60 * 2) False None,
      ImageGeneration ''sample-image-1''
        ''A majestic ice warrior in blue armor standing in a snowy landscape''
        (map (\<lambda>u. \<lparr>url = u, imageBytes = None, isSample = Some True\<rparr>)
           [''/sample-images/generated-image-1.png'', ''/sample-images/generated-image-2.png'',
            ''/sample-images/generated-image-3.png'', ''/sample-images/generated-image-4.png''])
        (now - 1000 * 60 * 5) False]"

text \<open>The grid after mount, and one generation begun on it some seconds later.\<close>

definition sampleGrid :: content_grid where
  "sampleGrid = emptyGrid\<lparr>generations := createSampleGenerations 1700000000000\<rparr>"

definition foxFlow :: workflow where
  "foxFlow = NewGeneration ImageKind ''a red fox''"

definition foxBegun :: "Generation \<times> content_grid" where
  "foxBegun = beginOf 1700000005000 1700000005000 None foxFlow sampleGrid"

definition foxImages :: "api_image list" where
  "foxImages =
     [\<lparr>img_id = ''1700000009000-0'', img_url = ''data:image/png;base64,AAAA'',
       img_imageBytes = Some ''AAAA''\<rparr>,
      \<lparr>img_id = ''1700000009000-2'', img_url = ''data:image/png;base64,BBBB'',
       img_imageBytes = Some ''BBBB''\<rparr>]"

definition foxSucceeded :: fetch_outcome where
  "foxSucceeded =
     Resolved (emptyBody\<lparr>success := Some True, data_images := Some foxImages,
                 data_prompt := Some ''a red fox''\<rparr>)"

definition foxFailed :: fetch_outcome where
  "foxFailed =
     Resolved (emptyBody\<lparr>success := Some False, data_error := Some ''quota exceeded'',
                 data_details := Some ''Error''\<rparr>)"

text \<open>
  The fox generation completed with its two images. Then the system clock is set back by
  four seconds and a second generation, ``a city skyline'', is begun and completes with
  one image: its record stands at the head of the timeline with the older timestamp.
\<close>

definition foxDone :: content_grid where
  "foxDone = finishOf foxFlow (fst foxBegun) foxSucceeded (snd foxBegun)"

definition skylineFlow :: workflow where
  "skylineFlow = NewGeneration ImageKind ''a city skyline''"

definition skylineBegun :: "Generation \<times> content_grid" where
  "skylineBegun = beginOf 1700000001000 1700000001000 None skylineFlow foxDone"

definition skylineSucceeded :: fetch_outcome where
  "skylineSucceeded =
     Resolved (emptyBody\<lparr>success := Some True,
                 data_images :=
                   Some [\<lparr>img_id = ''1700000004000-0'',
                          img_url = ''data:image/png;base64,CCCC'',
                          img_imageBytes = Some ''CCCC''\<rparr>],
                 data_prompt := Some ''a city skyline''\<rparr>)"

definition skylineDone :: content_grid where
  "skylineDone = finishOf skylineFlow (fst skylineBegun) skylineSucceeded (snd skylineBegun)"

text \<open>
  Two clicks on ``Animate with Veo 2'' of the first fox image, both within one reading of
  \<open>Date.now()\<close>; the clock has moved on by a millisecond when the second call reads
  \<open>new Date()\<close>. The grid does not disable the button between the clicks. The first
  request is then answered with two videos.
\<close>

definition animateFlow :: workflow where
  "animateFlow = ImageToVideoFlow ''data:image/png;base64,AAAA'' ''AAAA'' ''a red fox''"

definition animateFirst :: "Generation \<times> content_grid" where
  "animateFirst = beginOf 1700000030000 1700000030000 None animateFlow foxDone"

definition animateSecond :: "Generation \<times> content_grid" where
  "animateSecond = beginOf 1700000030000 1700000030001 None animateFlow (snd animateFirst)"

definition foxVideos :: fetch_outcome where
  "foxVideos =
     Resolved (emptyBody\<lparr>success := Some True,
                 data_videos :=
                   Some [Some \<lparr>vid_id = ''1700000090000-0'',
                               vid_url = ''https://videos.example/v1?alt=media&key=env-key'',
                               vid_uri = ''https://videos.example/v1?alt=media''\<rparr>,
                         Some \<lparr>vid_id = ''1700000090000-1'',
                               vid_url = ''https://videos.example/v2?alt=media&key=env-key'',
                               vid_uri = ''https://videos.example/v2?alt=media''\<rparr>],
                 data_prompt := Some ''a red fox - animated video''\<rparr>)"

text \<open>
  The first sample image, and the focused view open on a generated image that kept its
  bytes, with both action props passed as \<open>ContentGrid\<close> passes them.
\<close>

definition sampleImage :: image_data where
  "sampleImage =
     \<lparr>url = ''/sample-images/generated-image-1.png'', imageBytes = None, isSample = Some True\<rparr>"

definition foxView :: focused_media_view where
  "foxView =
     \<lparr>view_isOpen = True,
      view_mediaItems =
        [\<lparr>item_id = ''loading-1700000005000-img-0'', item_type = ImageKind,
          item_url = ''data:image/png;base64,AAAA'', item_prompt = ''a red fox'',
          item_timestamp = 1700000005000, item_sourceImage = None,
          item_imageBytes = Some ''AAAA''\<rparr>],
      has_onImageToVideo = True, has_onImageImprove = True,
      currentIndex = 0, accumulatedDelta = 0, isScrolling = False\<rparr>"

text \<open>
  Whether a sub-request came back with an image payload: the call returned, and some part
  of some candidate carries non-empty \<open>inlineData.data\<close>.
\<close>

definition partHasImage :: "content_part \<Rightarrow> bool" where
  "partHasImage p =
     (case part_inlineData p of None \<Rightarrow> False | Some d \<Rightarrow> truthy (inline_bytes d))"

definition candidateHasImage :: "candidate \<Rightarrow> bool" where
  "candidateHasImage c =
     (case candidate_parts c of None \<Rightarrow> False | Some ps \<Rightarrow> (\<exists>p \<in> set ps. partHasImage p))"

definition yieldsImage :: "candidate list option js_result \<Rightarrow> bool" where
  "yieldsImage result =
     (case result of
        Throws _ \<Rightarrow> False
      | Returns candidates \<Rightarrow>
          (\<exists>c \<in> set (case candidates of None \<Rightarrow> [] | Some cs \<Rightarrow> cs). candidateHasImage c))"

text \<open>
  A request for ``a red fox'' with the user's key, a clock that reads the same
  millisecond in every sub-request, and two models: one whose sub-requests 0 and 2 return
  an image while 1 throws and 3 returns a candidate with text only, and one whose four
  sub-requests all throw.
\<close>

definition foxRequest :: image_request where
  "foxRequest = \<lparr>req_prompt = Some ''a red fox'', req_apiKey = Some ''user-key'',
                   req_imageBytes = None\<rparr>"

definition steadyClock :: "nat \<Rightarrow> nat" where
  "steadyClock index = 1700000009000"

definition quotaError :: js_error where
  "quotaError = \<lparr>err_message = ''quota exceeded'', err_name = ''ApiError''\<rparr>"

definition imageCandidate :: "string \<Rightarrow> candidate" where
  "imageCandidate bytes =
     \<lparr>candidate_parts =
        Some [\<lparr>part_text = Some ''Here is your image'', part_inlineData = None\<rparr>,
              \<lparr>part_text = None,
               part_inlineData = Some \<lparr>inline_bytes = Some bytes, inline_mimeType = None\<rparr>\<rparr>]\<rparr>"

definition twoOfFour :: "nat \<Rightarrow> content_part list \<Rightarrow> candidate list option js_result" where
  "twoOfFour index parts =
     (if index = 0 then Returns (Some [imageCandidate ''AAAA''])
      else if index = 1 then Throws quotaError
      else if index = 2 then Returns (Some [imageCandidate ''BBBB''])
      else Returns (Some [\<lparr>candidate_parts =
             Some [\<lparr>part_text = Some ''I cannot draw that'', part_inlineData = None\<rparr>]\<rparr>]))"

definition allThrow :: "nat \<Rightarrow> content_part list \<Rightarrow> candidate list option js_result" where
  "allThrow index parts = Throws quotaError"

text \<open>
  A video request for ``a city skyline'', an operation that is not done, a provider that
  answers every status check with it, and one whose third check reports the operation
  done with two videos.
\<close>

definition skylineRequest :: image_request where
  "skylineRequest = \<lparr>req_prompt = Some ''a city skyline'', req_apiKey = Some ''user-key'',
                       req_imageBytes = None\<rparr>"

definition pendingOperation :: operation where
  "pendingOperation = \<lparr>op_done = False, generatedVideos = None\<rparr>"

definition finishedOperation :: operation where
  "finishedOperation =
     \<lparr>op_done = True,
      generatedVideos =
        Some [\<lparr>video_uri = Some ''https://videos.example/v1?alt=media''\<rparr>,
              \<lparr>video_uri = Some ''https://videos.example/v2?alt=media''\<rparr>]\<rparr>"

definition startPending :: "string \<Rightarrow> operation js_result" where
  "startPending prmpt = Returns pendingOperation"

definition stillRunning :: "nat \<Rightarrow> operation \<Rightarrow> operation js_result" where
  "stillRunning attempt op = Returns pendingOperation"

definition doneOnThird :: "nat \<Rightarrow> operation \<Rightarrow> operation js_result" where
  "doneOnThird attempt op =
     Returns (if attempt < 2 then pendingOperation else finishedOperation)"

definition skylineStates :: "nat \<Rightarrow> operation" where
  "skylineStates k = (if k < 3 then pendingOperation else finishedOperation)"

definition pendingStates :: "nat \<Rightarrow> operation" where
  "pendingStates k = pendingOperation"

text \<open>
  An improvement of the fox image: the modal opened on it, the instruction ``sharper
  fur'', the request the grid sends, and an image model that returns one image.
\<close>

definition improveGrid :: content_grid where
  "improveGrid =
     handleOpenImproveModal ''data:image/png;base64,AAAA'' ''AAAA'' ''a fox'' sampleGrid"

definition improveBegun :: "Generation \<times> content_grid" where
  "improveBegun =
     handleImproveImage_begin 1700000020000 1700000020000 (Some ''user-key'') ''sharper fur''
       improveGrid"

definition improveRequest :: improve_request where
  "improveRequest =
     \<lparr>imp_originalPrompt = Some ''a fox'', imp_improvementPrompt = Some ''sharper fur'',
      imp_imageBytes = Some ''AAAA'', imp_apiKey = Some ''user-key''\<rparr>"

definition oneImage :: "string \<Rightarrow> generated_image list option js_result" where
  "oneImage prmpt = Returns (Some [\<lparr>image_bytes = Some ''DDDD''\<rparr>])"

section \<open>Properties of the timeline store\<close>

lemmas store_defs = foxDone_def foxBegun_def foxFlow_def foxSucceeded_def foxImages_def
  skylineFlow_def skylineBegun_def skylineSucceeded_def skylineDone_def
  animateFlow_def animateFirst_def animateSecond_def foxVideos_def
  beginOf_def finishOf_def handleNewGeneration_begin_def handleNewGeneration_finish_def
  handleImageToVideo_begin_def handleImageToVideo_finish_def settle_def catchError_def
  tryImage_def tryImageToVideo_def completedImageGeneration_def completedImageToVideo_def
  toImageData_def beginGeneration_def completeGeneration_def failGeneration_def
  sampleGrid_def emptyGrid_def createSampleGenerations_def emptyBody_def Let_def
  show_nat.simps

lemmas scenario_defs = foxBegun_def foxFlow_def beginOf_def handleNewGeneration_begin_def
  sampleGrid_def emptyGrid_def createSampleGenerations_def beginGeneration_def
  foxSucceeded_def foxImages_def foxFailed_def emptyBody_def Let_def show_nat.simps

lemma try_completed:
  "tryOf w L outcome = Inr c \<Longrightarrow>
     gen_id c = gen_id L \<and> timestamp c = timestamp L \<and> \<not> isLoading c"
  by (auto simp: tryOf_def tryImage_def tryVideo_def tryImageToVideo_def tryImproveImage_def
        completedImageGeneration_def completedVideoGeneration_def completedImageToVideo_def
        completedImprovedGeneration_def
        split: workflow.splits media_type.splits fetch_outcome.splits if_splits option.splits)

lemma finishOf_settle:
  "\<exists>label. finishOf w L outcome st = settle label L (tryOf w L outcome) st"
  by (cases w)
     (auto simp: finishOf_def tryOf_def handleNewGeneration_finish_def
        handleImageToVideo_finish_def handleImproveImage_finish_def split: media_type.splits)

lemma generations_settle_Inr:
  "generations (settle label L (Inr c) st) = completeGeneration L c (generations st)"
  by (simp add: settle_def)

lemma generations_settle_Inl:
  "generations (settle label L (Inl m) st) = failGeneration L (generations st)"
  by (simp add: settle_def catchError_def Let_def)

lemma generations_finish_completed:
  "tryOf w L outcome = Inr c \<Longrightarrow>
     generations (finishOf w L outcome st) = completeGeneration L c (generations st)"
  using finishOf_settle [of w L outcome st] by (auto simp: generations_settle_Inr)

lemma generations_finish_failed:
  "isl (tryOf w L outcome) \<Longrightarrow>
     generations (finishOf w L outcome st) = failGeneration L (generations st)"
  using finishOf_settle [of w L outcome st]
  by (cases "tryOf w L outcome") (auto simp: generations_settle_Inl)

text \<open>
  What a completion does in every workflow. When the \<open>try\<close> block reaches its completed
  record \<open>c\<close> for the loading record \<open>L\<close>, \<open>c\<close> carries the id and the timestamp of
  \<open>L\<close> and is not loading; the timeline keeps its length, every position whose record
  has the id of \<open>L\<close> now holds \<open>c\<close>, every other position holds the record it held
  before, and a timeline without a record of that id is left as it was.
\<close>

lemma completed_replaces_by_id:
  assumes "tryOf w L outcome = Inr c"
  shows "gen_id c = gen_id L \<and> timestamp c = timestamp L \<and> \<not> isLoading c \<and>
     length (generations (finishOf w L outcome st)) = length (generations st) \<and>
     (\<forall>k < length (generations st).
        generations (finishOf w L outcome st) ! k =
          (if gen_id (generations st ! k) = gen_id L then c else generations st ! k)) \<and>
     ((\<forall>g \<in> set (generations st). gen_id g \<noteq> gen_id L) \<longrightarrow>
        generations (finishOf w L outcome st) = generations st)"
proof -
  have g: "generations (finishOf w L outcome st) = completeGeneration L c (generations st)"
    using assms by (rule generations_finish_completed)
  have "(\<forall>g \<in> set (generations st). gen_id g \<noteq> gen_id L) \<longrightarrow>
          completeGeneration L c (generations st) = generations st"
    by (auto simp: completeGeneration_def intro: map_idI)
  with g try_completed [OF assms] show ?thesis
    by (simp add: completeGeneration_def)
qed

text \<open>
  The image generation begun on the sample grid and answered with two images: its loading
  record at the head becomes the completed record, the two samples stay where they were.
\<close>

lemma completed_replaces_by_id_example:
  "tryOf foxFlow (fst foxBegun) foxSucceeded =
     Inr (completedImageGeneration (fst foxBegun) foxImages) \<and>
   generations (finishOf foxFlow (fst foxBegun) foxSucceeded (snd foxBegun)) =
     ImageGeneration ''loading-1700000005000'' ''a red fox'' (map toImageData foxImages)
       1700000005000 False # createSampleGenerations 1700000000000"
proof -
  have h: "tryOf foxFlow (fst foxBegun) foxSucceeded =
     Inr (completedImageGeneration (fst foxBegun) foxImages)"
    by (simp add: tryOf_def tryImage_def scenario_defs)
  have len: "length (generations (snd foxBegun)) = 3"
    by (simp add: scenario_defs)
  have gens: "generations (snd foxBegun) = fst foxBegun # createSampleGenerations 1700000000000"
    by (simp add: scenario_defs)
  have L: "fst foxBegun =
      LoadingGeneration ''loading-1700000005000'' ''a red fox'' ImageKind 1700000005000 None"
    by (simp add: scenario_defs)
  from completed_replaces_by_id [OF h, of "snd foxBegun"]
  have "\<forall>k<3. generations (finishOf foxFlow (fst foxBegun) foxSucceeded (snd foxBegun)) ! k =
          (if gen_id (generations (snd foxBegun) ! k) = gen_id (fst foxBegun)
           then completedImageGeneration (fst foxBegun) foxImages
           else generations (snd foxBegun) ! k)"
    and "length (generations (finishOf foxFlow (fst foxBegun) foxSucceeded (snd foxBegun))) = 3"
    by (simp_all add: len)
  then have "generations (finishOf foxFlow (fst foxBegun) foxSucceeded (snd foxBegun)) =
     map (\<lambda>k. if gen_id (generations (snd foxBegun) ! k) = gen_id (fst foxBegun)
           then completedImageGeneration (fst foxBegun) foxImages
           else generations (snd foxBegun) ! k) [0..<3]"
    by (intro nth_equalityI) auto
  then show ?thesis using h
    by (simp add: gens L upt_rec completedImageGeneration_def createSampleGenerations_def)
qed

text \<open>
  C6 at two clicks on ``Animate with Veo 2'' within one reading of \<open>Date.now()\<close>: both
  loading records get the id \<open>video-loading-1700000030000\<close>, with the timestamps
  1700000030000 and 1700000030001. When the first request completes, the map by id puts
  its completed record, with the first timestamp, in the place of both: the placeholder
  of the second request, a record of its own, is replaced by a record with another
  timestamp.
\<close>

theorem completion_overwrites_other_placeholder:
  "generations (snd animateSecond) =
     [LoadingGeneration ''video-loading-1700000030000'' ''a red fox - animated video'' VideoKind
        1700000030001 (Some ''data:image/png;base64,AAAA''),
      LoadingGeneration ''video-loading-1700000030000'' ''a red fox - animated video'' VideoKind
        1700000030000 (Some ''data:image/png;base64,AAAA'')] @ generations foxDone \<and>
   fst animateFirst = generations (snd animateSecond) ! 1 \<and>
   generations (finishOf animateFlow (fst animateFirst) foxVideos (snd animateSecond)) =
     [VideoGeneration ''video-loading-1700000030000'' ''a red fox - animated video''
        [''https://videos.example/v1?alt=media&key=env-key'',
         ''https://videos.example/v2?alt=media&key=env-key'']
        1700000030000 False (Some ''data:image/png;base64,AAAA''),
      VideoGeneration ''video-loading-1700000030000'' ''a red fox - animated video''
        [''https://videos.example/v1?alt=media&key=env-key'',
         ''https://videos.example/v2?alt=media&key=env-key'']
        1700000030000 False (Some ''data:image/png;base64,AAAA'')] @ generations foxDone \<and>
   timestamp (generations (snd animateSecond) ! 0) = 1700000030001 \<and>
   timestamp (generations (finishOf animateFlow (fst animateFirst) foxVideos
                 (snd animateSecond)) ! 0) = 1700000030000"
  by (simp add: store_defs)

lemma failure_outcomes_throw:
  "isl (tryOf w L (Rejected m))"
  "success d \<noteq> Some True \<Longrightarrow> isl (tryOf w L (Resolved d))"
  by (auto simp: tryOf_def tryImage_def tryVideo_def tryImageToVideo_def tryImproveImage_def
        split: workflow.splits media_type.splits)

lemma generations_begin:
  "beginOf dateNow newDate key w st0 = (L, st) \<Longrightarrow> generations st = L # generations st0"
  by (cases w)
     (auto simp: beginOf_def handleNewGeneration_begin_def handleImageToVideo_begin_def
        handleImproveImage_begin_def beginGeneration_def Let_def)

text \<open>
  What a failure does in every workflow. A thrown exception, an error response and any
  other path into the \<open>catch\<close> block remove from the timeline every record that carries
  the id of the loading record \<open>L\<close>, and nothing else. When the workflow was begun on a
  timeline in which no record carried that id and nothing happened to the timeline in
  between, the timeline is what it was before the insertion.
\<close>

lemma failure_removes_by_id:
  assumes "(\<exists>m. outcome = Rejected m) \<or> (\<exists>d. outcome = Resolved d \<and> success d \<noteq> Some True) \<or>
           isl (tryOf w L outcome)"
  shows "generations (finishOf w L outcome st) =
           filter (\<lambda>g. gen_id g \<noteq> gen_id L) (generations st) \<and>
         (\<forall>g \<in> set (generations (finishOf w L outcome st)). gen_id g \<noteq> gen_id L) \<and>
         (beginOf dateNow newDate key w st0 = (L, st) \<and>
          (\<forall>g \<in> set (generations st0). gen_id g \<noteq> gen_id L) \<longrightarrow>
            generations (finishOf w L outcome st) = generations st0)"
proof -
  from assms have "isl (tryOf w L outcome)"
    by (auto simp: failure_outcomes_throw)
  then have g: "generations (finishOf w L outcome st) = failGeneration L (generations st)"
    by (rule generations_finish_failed)
  have r: "failGeneration L (L # generations st0) = generations st0"
    if "\<forall>g \<in> set (generations st0). gen_id g \<noteq> gen_id L"
    using that by (simp add: failGeneration_def)
  have 1: "generations (finishOf w L outcome st) =
           filter (\<lambda>g. gen_id g \<noteq> gen_id L) (generations st)"
    using g by (simp add: failGeneration_def)
  have 2: "\<forall>g \<in> set (generations (finishOf w L outcome st)). gen_id g \<noteq> gen_id L"
    by (simp add: 1)
  have 3: "generations (finishOf w L outcome st) = generations st0"
    if b: "beginOf dateNow newDate key w st0 = (L, st)"
      and f: "\<forall>g \<in> set (generations st0). gen_id g \<noteq> gen_id L"
    using g r [OF f] generations_begin [OF b] by simp
  from 1 2 3 show ?thesis by blast
qed

text \<open>An error response to the generation begun on the sample grid leaves the two samples.\<close>

lemma failure_removes_by_id_example:
  "foxFailed = Resolved (emptyBody\<lparr>success := Some False, data_error := Some ''quota exceeded'',
                 data_details := Some ''Error''\<rparr>) \<and>
   beginOf 1700000005000 1700000005000 None foxFlow sampleGrid = (fst foxBegun, snd foxBegun) \<and>
   gen_id (fst foxBegun) \<notin> set (map gen_id (generations sampleGrid)) \<and>
   generations (finishOf foxFlow (fst foxBegun) foxFailed (snd foxBegun)) =
     createSampleGenerations 1700000000000"
proof -
  have d: "foxFailed = Resolved (emptyBody\<lparr>success := Some False,
             data_error := Some ''quota exceeded'', data_details := Some ''Error''\<rparr>)"
    by (simp add: foxFailed_def)
  then have h: "(\<exists>m. foxFailed = Rejected m) \<or>
      (\<exists>d. foxFailed = Resolved d \<and> success d \<noteq> Some True) \<or>
      isl (tryOf foxFlow (fst foxBegun) foxFailed)"
    by (auto simp: emptyBody_def)
  have b: "beginOf 1700000005000 1700000005000 None foxFlow sampleGrid =
      (fst foxBegun, snd foxBegun)"
    by (simp add: foxBegun_def)
  have n: "gen_id (fst foxBegun) \<notin> set (map gen_id (generations sampleGrid))"
    by (simp add: scenario_defs)
  have f: "\<forall>g \<in> set (generations sampleGrid). gen_id g \<noteq> gen_id (fst foxBegun)"
    by (simp add: scenario_defs)
  have s: "generations sampleGrid = createSampleGenerations 1700000000000"
    by (simp add: sampleGrid_def emptyGrid_def)
  from failure_removes_by_id
         [OF h, of "snd foxBegun" 1700000005000 1700000005000 None sampleGrid] b f
  have "generations (finishOf foxFlow (fst foxBegun) foxFailed (snd foxBegun)) =
          generations sampleGrid" by blast
  with d b n s show ?thesis by simp
qed

text \<open>
  C3 at two clicks on ``Animate with Veo 2'' within one reading of \<open>Date.now()\<close>, where
  the second request fails: the filter by id removes the placeholder of the first
  request together with that of the second, so the timeline is not the one into which the
  second loading record was inserted.
\<close>

theorem failure_removes_other_placeholder:
  "generations (snd animateFirst) =
     LoadingGeneration ''video-loading-1700000030000'' ''a red fox - animated video'' VideoKind
       1700000030000 (Some ''data:image/png;base64,AAAA'') # generations foxDone \<and>
   generations (snd animateSecond) = fst animateSecond # generations (snd animateFirst) \<and>
   generations (finishOf animateFlow (fst animateSecond) (Rejected ''Failed to fetch'')
      (snd animateSecond)) = generations foxDone \<and>
   generations (finishOf animateFlow (fst animateSecond) (Rejected ''Failed to fetch'')
      (snd animateSecond)) \<noteq> generations (snd animateFirst)"
  by (simp add: store_defs)

text \<open>
  C9 at two calls of \<open>handleNewGeneration\<close> within one millisecond: both loading records
  get the id \<open>loading-1700000000000\<close>, and the timeline holds two records with one id.
  The same at two clicks on ``Animate with Veo 2'' within one reading of the clock, on the
  grid that holds a completed generation and the samples: two records with the id
  \<open>video-loading-1700000030000\<close>.
\<close>

theorem same_millisecond_ids_collide:
  "gen_id (fst firstBegun) = ''loading-1700000000000'' \<and>
   gen_id (fst secondBegun) = ''loading-1700000000000'' \<and>
   map gen_id (generations (snd secondBegun)) =
     [''loading-1700000000000'', ''loading-1700000000000''] \<and>
   \<not> distinct (map gen_id (generations (snd secondBegun))) \<and>
   map gen_id (generations (snd animateSecond)) =
     [''video-loading-1700000030000'', ''video-loading-1700000030000'',
      ''loading-1700000005000'', ''sample-video-1'', ''sample-image-1''] \<and>
   \<not> distinct (map gen_id (generations (snd animateSecond)))"
  by (simp add: secondBegun_def firstBegun_def store_defs)

section \<open>Properties of flattening and addressing\<close>

lemma length_pushItems:
  "length (pushItems g) = (if isLoading g then 0 else mediaCount g)"
  by (cases g) (simp_all add: pushItems_def mediaCount_def)

lemma pushItems_timestamp:
  "m \<in> set (pushItems g) \<Longrightarrow> item_timestamp m = timestamp g \<and> \<not> isLoading g"
  by (cases g)
     (auto simp: pushItems_def imageItem_def videoItem_def in_set_enumerate_eq split: if_splits)

lemma length_concat_pushItems:
  "length (concat (map pushItems gs)) =
     sum_list (map (\<lambda>g. if isLoading g then 0 else mediaCount g) gs)"
  by (induction gs) (simp_all add: length_pushItems)

lemma sorted_pushItems:
  "sorted (map (\<lambda>m. - item_timestamp m) (pushItems g))"
proof -
  have "\<forall>m \<in> set (pushItems g). - item_timestamp m = - timestamp g"
    by (simp add: pushItems_timestamp)
  then have "map (\<lambda>m. - item_timestamp m) (pushItems g) =
      replicate (length (pushItems g)) (- timestamp g)"
    by (simp add: map_replicate_const [symmetric] cong: map_cong)
  then show ?thesis by (simp add: sorted_replicate)
qed

lemma sorted_concat_pushItems:
  "sorted_wrt (\<lambda>a b. timestamp b \<le> timestamp a) (filter (\<lambda>x. \<not> isLoading x) gs) \<Longrightarrow>
     sorted (map (\<lambda>m. - item_timestamp m) (concat (map pushItems gs)))"
proof (induction gs)
  case Nil
  then show ?case by simp
next
  case (Cons g gs)
  show ?case
  proof (cases "isLoading g")
    case True
    then have "pushItems g = []" by (simp add: pushItems_def)
    with Cons True show ?thesis by simp
  next
    case False
    with Cons.prems have later: "\<forall>x \<in> set gs. \<not> isLoading x \<longrightarrow> timestamp x \<le> timestamp g"
      and rest: "sorted_wrt (\<lambda>a b. timestamp b \<le> timestamp a) (filter (\<lambda>x. \<not> isLoading x) gs)"
      by auto
    have "- item_timestamp m \<le> - item_timestamp m'"
      if "m \<in> set (pushItems g)" "x \<in> set gs" "m' \<in> set (pushItems x)" for m m' x
      using that later pushItems_timestamp [of m g] pushItems_timestamp [of m' x] by auto
    with Cons.IH [OF rest] sorted_pushItems [of g] show ?thesis
      by (auto simp: sorted_append)
  qed
qed

lemma getAllMediaItems_in_order:
  "sorted_wrt (\<lambda>a b. timestamp b \<le> timestamp a) (filter (\<lambda>x. \<not> isLoading x) gs) \<Longrightarrow>
     getAllMediaItems gs = concat (map pushItems gs)"
  unfolding getAllMediaItems_def
  by (rule sort_key_id_if_sorted) (rule sorted_concat_pushItems)

lemma mediaCount_le_total:
  "g \<in> set gs \<Longrightarrow> \<not> isLoading g \<Longrightarrow> mediaCount g \<le> length (concat (map pushItems gs))"
  by (induction gs) (auto simp: length_pushItems)

lemma globalIndexLoop_in_range:
  "g \<in> set gs \<Longrightarrow> \<not> isLoading g \<Longrightarrow> i < mediaCount g \<Longrightarrow>
     globalIndexLoop gs (gen_id g) i acc < acc + length (concat (map pushItems gs))"
proof (induction gs arbitrary: acc)
  case Nil
  then show ?case by simp
next
  case (Cons x gs)
  show ?case
  proof (cases "isLoading x")
    case True
    with Cons.prems have "g \<in> set gs" by auto
    with Cons True show ?thesis by (simp add: length_pushItems)
  next
    case False
    show ?thesis
    proof (cases "gen_id x = gen_id g")
      case True
      have "mediaCount g \<le> length (concat (map pushItems (x # gs)))"
        using Cons.prems by (intro mediaCount_le_total) auto
      with True False Cons.prems show ?thesis by simp
    next
      case ne: False
      with Cons.prems have "g \<in> set gs" by auto
      from Cons.IH [OF this Cons.prems(2,3), of "acc + mediaCount x"] ne False
      show ?thesis by (simp add: length_pushItems)
    qed
  qed
qed

lemma globalIndexLoop_position:
  "g \<in> set gs \<Longrightarrow> \<not> isLoading g \<Longrightarrow> i < mediaCount g \<Longrightarrow>
   distinct (map gen_id (filter (\<lambda>x. \<not> isLoading x) gs)) \<Longrightarrow>
     \<exists>n. globalIndexLoop gs (gen_id g) i acc = acc + n \<and>
         n < length (concat (map pushItems gs)) \<and>
         concat (map pushItems gs) ! n = pushItems g ! i"
proof (induction gs arbitrary: acc)
  case Nil
  then show ?case by simp
next
  case (Cons x gs)
  show ?case
  proof (cases "isLoading x")
    case True
    with Cons.prems have "g \<in> set gs" "distinct (map gen_id (filter (\<lambda>x. \<not> isLoading x) gs))"
      by auto
    from Cons.IH [OF this(1) Cons.prems(2,3) this(2), of acc] True
    show ?thesis by (simp add: pushItems_def)
  next
    case False
    show ?thesis
    proof (cases "gen_id x = gen_id g")
      case True
      have "x = g"
      proof (rule ccontr)
        assume "x \<noteq> g"
        with Cons.prems have "g \<in> set (filter (\<lambda>x. \<not> isLoading x) gs)" by auto
        then have "gen_id g \<in> set (map gen_id (filter (\<lambda>x. \<not> isLoading x) gs))"
          by (simp only: set_map) (rule imageI)
        with Cons.prems(4) False True show False by simp
      qed
      with False Cons.prems(3) show ?thesis
        by (intro exI [of _ i]) (simp add: nth_append length_pushItems)
    next
      case ne: False
      with Cons.prems False
      have "g \<in> set gs" "distinct (map gen_id (filter (\<lambda>x. \<not> isLoading x) gs))"
        by auto
      from Cons.IH [OF this(1) Cons.prems(2,3) this(2), of "acc + mediaCount x"]
      obtain n where n: "globalIndexLoop gs (gen_id g) i (acc + mediaCount x) = acc + mediaCount x + n"
        "n < length (concat (map pushItems gs))" "concat (map pushItems gs) ! n = pushItems g ! i"
        by auto
      with ne False show ?thesis
        by (intro exI [of _ "mediaCount x + n"]) (simp add: nth_append length_pushItems)
    qed
  qed
qed

lemma imageItem_pushed:
  "ImageGeneration gid p imgs ts False \<in> set gs \<Longrightarrow> i < length imgs \<Longrightarrow>
     \<lparr>item_id = gid @ ''-img-'' @ show_nat i, item_type = ImageKind, item_url = url (imgs ! i),
      item_prompt = p, item_timestamp = ts, item_sourceImage = None,
      item_imageBytes = imageBytes (imgs ! i)\<rparr> \<in> set (concat (map pushItems gs))"
proof -
  assume g: "ImageGeneration gid p imgs ts False \<in> set gs" and i: "i < length imgs"
  have "(i, imgs ! i) \<in> set (enumerate 0 imgs)"
    using i by (simp add: in_set_enumerate_eq)
  then have "imageItem (ImageGeneration gid p imgs ts False) i (imgs ! i)
      \<in> set (pushItems (ImageGeneration gid p imgs ts False))"
    by (force simp: pushItems_def)
  with g show ?thesis by (auto simp: imageItem_def)
qed

lemma videoItem_pushed:
  "VideoGeneration gid p vids ts False src \<in> set gs \<Longrightarrow> i < length vids \<Longrightarrow>
     \<lparr>item_id = gid @ ''-vid-'' @ show_nat i, item_type = VideoKind, item_url = vids ! i,
      item_prompt = p, item_timestamp = ts, item_sourceImage = src,
      item_imageBytes = None\<rparr> \<in> set (concat (map pushItems gs))"
proof -
  assume g: "VideoGeneration gid p vids ts False src \<in> set gs" and i: "i < length vids"
  have "(i, vids ! i) \<in> set (enumerate 0 vids)"
    using i by (simp add: in_set_enumerate_eq)
  then have "videoItem (VideoGeneration gid p vids ts False src) i (vids ! i)
      \<in> set (pushItems (VideoGeneration gid p vids ts False src))"
    by (force simp: pushItems_def)
  with g show ?thesis by (auto simp: videoItem_def)
qed

lemma set_getAllMediaItems:
  "set (getAllMediaItems gs) = set (concat (map pushItems gs))"
  by (simp add: getAllMediaItems_def)

lemma sorted_getAllMediaItems:
  "sorted_wrt (\<lambda>a b. item_timestamp b \<le> item_timestamp a) (getAllMediaItems gs)"
  using sorted_sort_key [of "\<lambda>m. - item_timestamp m" "concat (map pushItems gs)"]
  by (simp add: getAllMediaItems_def sorted_map)

text \<open>
  C4. \<open>getAllMediaItems\<close> is a function of the timeline alone. Its result is sorted by
  timestamp, newest first; it is a permutation of the items pushed for the records in
  timeline order, with the items of equal timestamp in that order (the sort is stable);
  it has one item for each image or video of each record that is not loading and none
  for a loading record; the item of image \<open>i\<close> of a record has the id
  \<open>gid-img-i\<close>, that of video \<open>i\<close> the id \<open>gid-vid-i\<close>, with the record's prompt
  and timestamp. Opening the focused view leaves the timeline as it was, and flattening
  once more from it gives the same list.
\<close>

theorem getAllMediaItems_flattens:
  "sorted_wrt (\<lambda>a b. item_timestamp b \<le> item_timestamp a) (getAllMediaItems gs) \<and>
   mset (getAllMediaItems gs) = mset (concat (map pushItems gs)) \<and>
   (\<forall>t. filter (\<lambda>m. item_timestamp m = t) (getAllMediaItems gs) =
        filter (\<lambda>m. item_timestamp m = t) (concat (map pushItems gs))) \<and>
   length (getAllMediaItems gs) =
     sum_list (map (\<lambda>g. if isLoading g then 0 else mediaCount g) gs) \<and>
   (\<forall>m \<in> set (getAllMediaItems gs). \<exists>g \<in> set gs. \<not> isLoading g \<and> m \<in> set (pushItems g)) \<and>
   (\<forall>gid p imgs ts i. ImageGeneration gid p imgs ts False \<in> set gs \<and> i < length imgs \<longrightarrow>
      \<lparr>item_id = gid @ ''-img-'' @ show_nat i, item_type = ImageKind, item_url = url (imgs ! i),
       item_prompt = p, item_timestamp = ts, item_sourceImage = None,
       item_imageBytes = imageBytes (imgs ! i)\<rparr> \<in> set (getAllMediaItems gs)) \<and>
   (\<forall>gid p vids ts src i. VideoGeneration gid p vids ts False src \<in> set gs \<and> i < length vids \<longrightarrow>
      \<lparr>item_id = gid @ ''-vid-'' @ show_nat i, item_type = VideoKind, item_url = vids ! i,
       item_prompt = p, item_timestamp = ts, item_sourceImage = src,
       item_imageBytes = None\<rparr> \<in> set (getAllMediaItems gs)) \<and>
   generations (openFocusedView gid1 i1 st) = generations st \<and>
   mediaItems (focusedView (openFocusedView gid2 i2 (openFocusedView gid1 i1 st))) =
     mediaItems (focusedView (openFocusedView gid1 i1 st))"
proof -
  have stable: "\<forall>t. filter (\<lambda>m. item_timestamp m = t) (getAllMediaItems gs) =
        filter (\<lambda>m. item_timestamp m = t) (concat (map pushItems gs))"
  proof
    fix t
    show "filter (\<lambda>m. item_timestamp m = t) (getAllMediaItems gs) =
        filter (\<lambda>m. item_timestamp m = t) (concat (map pushItems gs))"
      using sort_key_stable [of "\<lambda>m. - item_timestamp m" "- t" "concat (map pushItems gs)"]
      by (simp add: getAllMediaItems_def)
  qed
  have len: "length (getAllMediaItems gs) =
     sum_list (map (\<lambda>g. if isLoading g then 0 else mediaCount g) gs)"
    by (simp add: getAllMediaItems_def length_concat_pushItems)
  have only: "\<forall>m \<in> set (getAllMediaItems gs). \<exists>g \<in> set gs. \<not> isLoading g \<and> m \<in> set (pushItems g)"
    using pushItems_timestamp by (fastforce simp: set_getAllMediaItems)
  have view: "generations (openFocusedView gid1 i1 st) = generations st"
    by (simp add: openFocusedView_def)
  have twice: "mediaItems (focusedView (openFocusedView gid2 i2 (openFocusedView gid1 i1 st))) =
     mediaItems (focusedView (openFocusedView gid1 i1 st))"
    by (simp add: openFocusedView_def)
  have ms: "mset (getAllMediaItems gs) = mset (concat (map pushItems gs))"
    by (simp add: getAllMediaItems_def)
  have img: "\<forall>gid p imgs ts i.
      ImageGeneration gid p imgs ts False \<in> set gs \<and> i < length imgs \<longrightarrow>
      \<lparr>item_id = gid @ ''-img-'' @ show_nat i, item_type = ImageKind, item_url = url (imgs ! i),
       item_prompt = p, item_timestamp = ts, item_sourceImage = None,
       item_imageBytes = imageBytes (imgs ! i)\<rparr> \<in> set (getAllMediaItems gs)"
    unfolding set_getAllMediaItems by (blast intro: imageItem_pushed)
  have vid: "\<forall>gid p vids ts src i.
      VideoGeneration gid p vids ts False src \<in> set gs \<and> i < length vids \<longrightarrow>
      \<lparr>item_id = gid @ ''-vid-'' @ show_nat i, item_type = VideoKind, item_url = vids ! i,
       item_prompt = p, item_timestamp = ts, item_sourceImage = src,
       item_imageBytes = None\<rparr> \<in> set (getAllMediaItems gs)"
    unfolding set_getAllMediaItems by (blast intro: videoItem_pushed)
  show ?thesis
    using sorted_getAllMediaItems [of gs] ms stable len only img vid view twice
    by (intro conjI) assumption+
qed

lemma mediaItemOf_Some:
  "mediaItemOf g i = Some m \<longleftrightarrow> \<not> isLoading g \<and> i < mediaCount g \<and> m = pushItems g ! i"
  by (cases g)
     (auto simp: mediaItemOf_def mediaCount_def pushItems_def nth_enumerate_eq)

text \<open>
  The sample timeline flattens to its two videos followed by its four images.
\<close>

theorem getAllMediaItems_flattens_witness:
  "map item_id (getAllMediaItems (createSampleGenerations 1700000000000)) =
     [''sample-video-1-vid-0'', ''sample-video-1-vid-1'', ''sample-image-1-img-0'',
      ''sample-image-1-img-1'', ''sample-image-1-img-2'', ''sample-image-1-img-3''] \<and>
   length (getAllMediaItems (createSampleGenerations 1700000000000)) = 6 \<and>
   sorted_wrt (\<lambda>a b. item_timestamp b \<le> item_timestamp a)
     (getAllMediaItems (createSampleGenerations 1700000000000))"
proof -
  have ids: "map item_id (getAllMediaItems (createSampleGenerations 1700000000000)) =
     [''sample-video-1-vid-0'', ''sample-video-1-vid-1'', ''sample-image-1-img-0'',
      ''sample-image-1-img-1'', ''sample-image-1-img-2'', ''sample-image-1-img-3'']"
    by (simp add: getAllMediaItems_def createSampleGenerations_def pushItems_def
          imageItem_def videoItem_def show_nat.simps)
  have "(\<Sum>g\<leftarrow>createSampleGenerations 1700000000000.
           if isLoading g then 0 else mediaCount g) = 6"
    by (simp add: createSampleGenerations_def mediaCount_def)
  with getAllMediaItems_flattens [of "createSampleGenerations 1700000000000"] ids
  show ?thesis by simp
qed

text \<open>
  Where the index of \<open>openFocusedView\<close> is right. For a record \<open>g\<close> of the timeline and a
  local index \<open>i\<close> that denote an item \<open>m\<close>, the index is within the flattened list;
  and when the records that are not loading stand in the timeline by non-increasing
  timestamp and carry distinct ids, the flattened list holds \<open>m\<close> at that index.
\<close>

lemma locateGlobalIndex_in_order:
  assumes "g \<in> set gs" and "mediaItemOf g i = Some m"
  shows "locateGlobalIndex gs (gen_id g) i < length (getAllMediaItems gs) \<and>
     (sorted_wrt (\<lambda>a b. timestamp b \<le> timestamp a) (filter (\<lambda>x. \<not> isLoading x) gs) \<and>
      distinct (map gen_id (filter (\<lambda>x. \<not> isLoading x) gs)) \<longrightarrow>
        getAllMediaItems gs ! locateGlobalIndex gs (gen_id g) i = m)"
proof -
  from assms(2) have g: "\<not> isLoading g" "i < mediaCount g" and m: "m = pushItems g ! i"
    by (simp_all add: mediaItemOf_Some)
  have "locateGlobalIndex gs (gen_id g) i < length (getAllMediaItems gs)"
    using globalIndexLoop_in_range [OF assms(1) g, of 0]
    by (simp add: locateGlobalIndex_def getAllMediaItems_def)
  moreover have "getAllMediaItems gs ! locateGlobalIndex gs (gen_id g) i = m"
    if s: "sorted_wrt (\<lambda>a b. timestamp b \<le> timestamp a) (filter (\<lambda>x. \<not> isLoading x) gs)"
      and d: "distinct (map gen_id (filter (\<lambda>x. \<not> isLoading x) gs))"
    using globalIndexLoop_position [OF assms(1) g d, of 0] getAllMediaItems_in_order [OF s] m
    by (auto simp: locateGlobalIndex_def)
  ultimately show ?thesis by blast
qed

text \<open>
  The third sample image is item 4 of the flattened sample timeline.
\<close>

lemma locateGlobalIndex_in_order_example:
  "createSampleGenerations 1700000000000 ! 1 \<in> set (createSampleGenerations 1700000000000) \<and>
   mediaItemOf (createSampleGenerations 1700000000000 ! 1) 2 =
     Some \<lparr>item_id = ''sample-image-1-img-2'', item_type = ImageKind,
           item_url = ''/sample-images/generated-image-3.png'',
           item_prompt = ''A majestic ice warrior in blue armor standing in a snowy landscape'',
           item_timestamp = 1699999700000, item_sourceImage = None, item_imageBytes = None\<rparr> \<and>
   sorted_wrt (\<lambda>a b. timestamp b \<le> timestamp a)
     (filter (\<lambda>x. \<not> isLoading x) (createSampleGenerations 1700000000000)) \<and>
   distinct (map gen_id (filter (\<lambda>x. \<not> isLoading x) (createSampleGenerations 1700000000000))) \<and>
   locateGlobalIndex (createSampleGenerations 1700000000000) ''sample-image-1'' 2 = 4 \<and>
   getAllMediaItems (createSampleGenerations 1700000000000) ! 4 =
     \<lparr>item_id = ''sample-image-1-img-2'', item_type = ImageKind,
      item_url = ''/sample-images/generated-image-3.png'',
      item_prompt = ''A majestic ice warrior in blue armor standing in a snowy landscape'',
      item_timestamp = 1699999700000, item_sourceImage = None, item_imageBytes = None\<rparr>"
proof -
  let ?gs = "createSampleGenerations 1700000000000"
  let ?m = "\<lparr>item_id = ''sample-image-1-img-2'', item_type = ImageKind,
           item_url = ''/sample-images/generated-image-3.png'',
           item_prompt = ''A majestic ice warrior in blue armor standing in a snowy landscape'',
           item_timestamp = 1699999700000, item_sourceImage = None, item_imageBytes = None\<rparr>"
  have a: "?gs ! 1 \<in> set ?gs"
    by (simp add: createSampleGenerations_def)
  have b: "mediaItemOf (?gs ! 1) 2 = Some ?m"
    by (simp add: createSampleGenerations_def mediaItemOf_def imageItem_def show_nat.simps)
  have c: "sorted_wrt (\<lambda>a b. timestamp b \<le> timestamp a) (filter (\<lambda>x. \<not> isLoading x) ?gs)"
    by (simp add: createSampleGenerations_def)
  have d: "distinct (map gen_id (filter (\<lambda>x. \<not> isLoading x) ?gs))"
    by (simp add: createSampleGenerations_def)
  have e: "gen_id (?gs ! 1) = ''sample-image-1''"
    by (simp add: createSampleGenerations_def)
  have f: "locateGlobalIndex ?gs ''sample-image-1'' 2 = 4"
    by (simp add: createSampleGenerations_def locateGlobalIndex_def mediaCount_def)
  from locateGlobalIndex_in_order [OF a b] c d
  have "getAllMediaItems ?gs ! locateGlobalIndex ?gs (gen_id (?gs ! 1)) 2 = ?m"
    by blast
  with a b c d f show ?thesis by (simp only: e)
qed

text \<open>
  C5 on the timeline that two completed generations leave when the clock was set back
  between them: the newer record, ``a city skyline'', stands first and has the older
  timestamp. For its image, \<open>openFocusedView\<close> computes the index 0 by counting in
  timeline order, while the list it hands to the viewer is sorted by timestamp and holds
  the first image of ``a red fox'' at 0: the viewer opens on another record's image.
\<close>

theorem openFocusedView_opens_other_item:
  "map gen_id (generations skylineDone) =
     [''loading-1700000001000'', ''loading-1700000005000'', ''sample-video-1'',
      ''sample-image-1''] \<and>
   map timestamp (generations skylineDone) =
     [1700000001000, 1700000005000, 1699999880000, 1699999700000] \<and>
   map_option item_id (mediaItemOf (generations skylineDone ! 0) 0) =
     Some ''loading-1700000001000-img-0'' \<and>
   initialIndex (focusedView (openFocusedView ''loading-1700000001000'' 0 skylineDone)) = 0 \<and>
   map item_id (mediaItems (focusedView
       (openFocusedView ''loading-1700000001000'' 0 skylineDone))) =
     [''loading-1700000005000-img-0'', ''loading-1700000005000-img-1'',
      ''loading-1700000001000-img-0'', ''sample-video-1-vid-0'', ''sample-video-1-vid-1'',
      ''sample-image-1-img-0'', ''sample-image-1-img-1'', ''sample-image-1-img-2'',
      ''sample-image-1-img-3''] \<and>
   item_id (mediaItems (focusedView (openFocusedView ''loading-1700000001000'' 0 skylineDone)) !
      initialIndex (focusedView (openFocusedView ''loading-1700000001000'' 0 skylineDone))) =
     ''loading-1700000005000-img-0''"
  by (simp add: store_defs openFocusedView_def locateGlobalIndex_def getAllMediaItems_def
        pushItems_def imageItem_def videoItem_def mediaItemOf_def mediaCount_def)

section \<open>Properties of the image grid and the focused view\<close>

lemma conversion_dispatched:
  "imageBytes imageData = Some bytes \<Longrightarrow> bytes \<noteq> [] \<Longrightarrow> isSample imageData \<noteq> Some True \<Longrightarrow>
     handleConvertToVideo (Some (contentGridImageToVideo dateNow newDate key)) generation
       imageData index (ui, st) = (ui', st') \<Longrightarrow>
     length (generations st') = Suc (length (generations st)) \<and>
     requests st' =
       requests st @ [ImageToVideo (prompt generation @ '' - animated video'') bytes key]"
  by (auto simp: handleConvertToVideo_def contentGridImageToVideo_def
        handleImageToVideo_begin_def beginGeneration_def Let_def)

text \<open>
  C7. For an image that is flagged as a sample or has no bytes (none, or the empty
  string), \<open>handleConvertToVideo\<close> takes its early return whatever the
  \<open>onImageToVideo\<close> prop is: it reports the rejection, ``Image to video conversion not
  available for sample images'', with \<open>console.error\<close> and leaves the parent's state
  as it is. With the prop that \<open>ContentGrid\<close> passes, \<open>handleImageToVideo\<close>, the
  timeline gets no loading record and no request is issued.
\<close>

theorem sample_conversion_rejected:
  assumes "isSample imageData = Some True \<or> \<not> truthy (imageBytes imageData)"
  shows "handleConvertToVideo onImageToVideo generation imageData index (ui, parent) =
           (rejectConversion ui, parent) \<and>
         consoleErrors (rejectConversion ui) =
           consoleErrors ui @ [''Image to video conversion not available for sample images''] \<and>
         generations (snd (handleConvertToVideo
             (Some (contentGridImageToVideo dateNow newDate key)) generation imageData index
             (ui, st))) = generations st \<and>
         requests (snd (handleConvertToVideo
             (Some (contentGridImageToVideo dateNow newDate key)) generation imageData index
             (ui, st))) = requests st"
proof -
  have 1: "handleConvertToVideo onImageToVideo generation imageData index (ui, parent) =
      (rejectConversion ui, parent)"
    using assms
    by (auto simp: handleConvertToVideo_def truthy_def split: option.splits)
  have 2: "handleConvertToVideo (Some (contentGridImageToVideo dateNow newDate key)) generation
      imageData index (ui, st) = (rejectConversion ui, st)"
    using assms
    by (auto simp: handleConvertToVideo_def truthy_def split: option.splits)
  show ?thesis by (simp add: 1 2) (simp add: rejectConversion_def)
qed

text \<open>
  The first sample image: the grid logs the rejection and the sample grid is unchanged.
\<close>

theorem sample_conversion_rejected_witness:
  "isSample sampleImage = Some True \<and>
   handleConvertToVideo (Some (contentGridImageToVideo 1700000005000 1700000005000 None))
     (createSampleGenerations 1700000000000 ! 1) sampleImage 0
     (\<lparr>convertingToVideo = None, consoleErrors = []\<rparr>, sampleGrid) =
   (\<lparr>convertingToVideo = None,
     consoleErrors = [''Image to video conversion not available for sample images'']\<rparr>,
    sampleGrid)"
proof -
  have h: "isSample sampleImage = Some True \<or> \<not> truthy (imageBytes sampleImage)"
    by (simp add: sampleImage_def)
  from sample_conversion_rejected
         [OF h, where onImageToVideo = "Some (contentGridImageToVideo 1700000005000 1700000005000 None)"
            and generation = "createSampleGenerations 1700000000000 ! 1" and index = 0
            and ui = "\<lparr>convertingToVideo = None, consoleErrors = []\<rparr>" and parent = sampleGrid]
  show ?thesis
    by (simp add: rejectConversion_def sampleImage_def)
qed

lemma viewEvent_never_converts:
  "OnImageToVideo u b p \<notin> set (snd (viewEvent e v))"
  by (cases e)
     (auto simp: viewEvent_def handleKeyDown_def handlePageWheel_def handleClick_def
        handleDownload_def Let_def split: option.splits)

lemma viewEvents_never_converts:
  "OnImageToVideo u b p \<notin> set (snd (viewEvents es v))"
proof (induction es arbitrary: v)
  case Nil
  then show ?case by simp
next
  case (Cons e es)
  obtain v' calls where 1: "viewEvent e v = (v', calls)" by (cases "viewEvent e v")
  obtain v'' calls' where 2: "viewEvents es v' = (v'', calls')" by (cases "viewEvents es v'")
  from viewEvent_never_converts [of u b p e v] 1 have "OnImageToVideo u b p \<notin> set calls"
    by simp
  moreover from Cons.IH [of v'] 2 have "OnImageToVideo u b p \<notin> set calls'" by simp
  ultimately show ?case using 1 2 by simp
qed

text \<open>
  C10. Over any sequence of events on the focused view, in any state, no call of
  \<open>onImageToVideo\<close> is made; a click on ``Animate with Veo 2'', shown for an image when
  the prop is passed, calls \<open>onClose\<close> and nothing else, whether or not the image has
  its bytes.
\<close>

theorem focused_view_never_converts:
  "OnImageToVideo u b p \<notin> set (snd (viewEvents es v)) \<and>
   (view_isOpen v \<and> currentItem v = Some item \<and> item_type item = ImageKind \<and>
    has_onImageToVideo v \<longrightarrow> viewEvent ClickAnimate v = (v, [OnClose]))"
  using viewEvents_never_converts [of u b p es v]
  by (simp add: viewEvent_def handleClick_def)

text \<open>
  The view open on a generated image that has its bytes: the click only closes the view.
\<close>

theorem focused_view_never_converts_witness:
  "view_isOpen foxView \<and> has_onImageToVideo foxView \<and>
   map_option item_type (currentItem foxView) = Some ImageKind \<and>
   map_option item_imageBytes (currentItem foxView) = Some (Some ''AAAA'') \<and>
   viewEvent ClickAnimate foxView = (foxView, [OnClose]) \<and>
   OnImageToVideo ''data:image/png;base64,AAAA'' ''AAAA'' ''a red fox''
     \<notin> set (snd (viewEvents [ClickAnimate, ClickImproveImage] foxView))"
proof -
  have a: "view_isOpen foxView \<and> has_onImageToVideo foxView"
    by (simp add: foxView_def)
  have c: "currentItem foxView = Some (view_mediaItems foxView ! 0)"
    by (simp add: foxView_def currentItem_def)
  have t: "item_type (view_mediaItems foxView ! 0) = ImageKind"
    "item_imageBytes (view_mediaItems foxView ! 0) = Some ''AAAA''"
    by (simp_all add: foxView_def)
  from focused_view_never_converts
         [of "''data:image/png;base64,AAAA''" "''AAAA''" "''a red fox''"
             "[ClickAnimate, ClickImproveImage]" foxView "view_mediaItems foxView ! 0"]
       a c t
  show ?thesis by (simp del: viewEvents.simps)
qed

section \<open>Properties of the image route\<close>

lemma firstInlineData_None:
  "firstInlineData ps = None \<longleftrightarrow> \<not> (\<exists>p \<in> set ps. partHasImage p)"
  by (induction ps) (auto simp: partHasImage_def truthy_def split: option.splits)

lemma firstImage_None:
  "firstImage cs = None \<longleftrightarrow> \<not> (\<exists>c \<in> set cs. candidateHasImage c)"
proof (induction cs)
  case Nil
  then show ?case by simp
next
  case (Cons c cs)
  show ?case
  proof (cases "candidate_parts c")
    case None
    with Cons show ?thesis by (simp add: candidateHasImage_def)
  next
    case (Some ps)
    show ?thesis
    proof (cases "firstInlineData ps")
      case None
      with Some Cons firstInlineData_None [of ps] show ?thesis
        by (simp add: candidateHasImage_def)
    next
      case found: (Some r)
      with Some firstInlineData_None [of ps] show ?thesis
        by (simp add: candidateHasImage_def)
    qed
  qed
qed

lemma generatedImage_None:
  "generatedImage dateNow index result = None \<longleftrightarrow> \<not> yieldsImage result"
proof (cases result)
  case (Throws e)
  then show ?thesis by (simp add: generatedImage_def yieldsImage_def)
next
  case (Returns candidates)
  let ?cs = "case candidates of None \<Rightarrow> [] | Some cs \<Rightarrow> cs"
  show ?thesis
  proof (cases "firstImage ?cs")
    case None
    with Returns firstImage_None [of ?cs] show ?thesis
      by (simp add: generatedImage_def yieldsImage_def)
  next
    case (Some r)
    with Returns firstImage_None [of ?cs] show ?thesis
      by (cases r) (simp add: generatedImage_def yieldsImage_def)
  qed
qed

lemma map_filter_Some:
  "map Some (List.map_filter f xs) = filter (\<lambda>x. x \<noteq> None) (map f xs)"
  by (induction xs) (auto simp: List.map_filter_simps split: option.splits)

lemma length_map_filter:
  "length (List.map_filter f xs) = length (filter (\<lambda>x. f x \<noteq> None) xs)"
  by (induction xs) (auto simp: List.map_filter_simps split: option.splits)

text \<open>
  C1, as the code has it. For a request with a prompt and an API key (the user's or the
  environment's), the route answers with status 200 and \<open>success: true\<close>, and its
  \<open>images\<close> are the results of the sub-requests 0 to 3 that are not \<open>null\<close>, in index
  order: as many as the sub-requests that came back with an image payload. A sub-request
  whose call throws or whose response has no payload contributes nothing, and when none
  of the four yields a payload the answer is still the success, with an empty list.
\<close>

theorem generate_images_partial_results:
  assumes "req_prompt req = Some prmpt" and "prmpt \<noteq> []"
    and "truthy (req_apiKey req) \<or> truthy envKey"
  shows "\<exists>imgs.
     POST_generate_images envKey clock generateContent (Returns req) =
       \<lparr>status = 200,
        body = emptyBody\<lparr>success := Some True, data_images := Some imgs,
                 data_prompt := Some prmpt\<rparr>\<rparr> \<and>
     map Some imgs =
       filter (\<lambda>x. x \<noteq> None)
         (map (\<lambda>index. generatedImage (clock index) index
                 (generateContent index (contentParts prmpt (req_imageBytes req)))) [0, 1, 2, 3]) \<and>
     length imgs =
       length (filter (\<lambda>index. yieldsImage
                 (generateContent index (contentParts prmpt (req_imageBytes req)))) [0, 1, 2, 3]) \<and>
     ((\<forall>index < 4. \<not> yieldsImage
          (generateContent index (contentParts prmpt (req_imageBytes req)))) \<longrightarrow> imgs = [])"
proof -
  let ?gen = "\<lambda>index. generatedImage (clock index) index
                 (generateContent index (contentParts prmpt (req_imageBytes req)))"
  have up: "[0..<4] = [0, 1, 2, 3::nat]" by (simp add: upt_rec)
  have key: "truthy (or_opt (req_apiKey req) envKey)"
    using assms(3) by (auto simp: or_opt_def)
  have post: "POST_generate_images envKey clock generateContent (Returns req) =
       \<lparr>status = 200,
        body = emptyBody\<lparr>success := Some True,
                 data_images := Some (List.map_filter (\<lambda>x. x) (map ?gen [0, 1, 2, 3])),
                 data_prompt := Some prmpt\<rparr>\<rparr>"
    using assms(1,2) key by (simp add: POST_generate_images_def up del: upt_Suc)
  have mf: "List.map_filter (\<lambda>x. x) (map ?gen [0, 1, 2, 3]) = List.map_filter ?gen [0, 1, 2, 3]"
    by (simp add: List.map_filter_def)
  have len: "length (List.map_filter ?gen [0, 1, 2, 3]) =
       length (filter (\<lambda>index. yieldsImage
                 (generateContent index (contentParts prmpt (req_imageBytes req)))) [0, 1, 2, 3])"
    by (simp only: length_map_filter generatedImage_None not_not)
  have none: "List.map_filter ?gen [0, 1, 2, 3] = []"
    if "\<forall>index < 4. \<not> yieldsImage
          (generateContent index (contentParts prmpt (req_imageBytes req)))"
  proof -
    from that have "\<forall>index \<in> set [0, 1, 2, 3::nat]. ?gen index = None"
      by (simp add: generatedImage_None)
    then have "filter (\<lambda>index. ?gen index \<noteq> None) [0, 1, 2, 3] = []"
      by (simp only: filter_empty_conv) simp
    then show ?thesis using length_map_filter [of ?gen "[0, 1, 2, 3]"] by simp
  qed
  have some: "map Some (List.map_filter ?gen [0, 1, 2, 3]) =
      filter (\<lambda>x. x \<noteq> None) (map ?gen [0, 1, 2, 3])"
    by (rule map_filter_Some)
  show ?thesis
  proof (intro exI [of _ "List.map_filter ?gen [0, 1, 2, 3]"] conjI impI)
    show "POST_generate_images envKey clock generateContent (Returns req) =
       \<lparr>status = 200,
        body = emptyBody\<lparr>success := Some True,
                 data_images := Some (List.map_filter ?gen [0, 1, 2, 3]),
                 data_prompt := Some prmpt\<rparr>\<rparr>"
      using post by (simp only: mf)
  qed (fact some len, fact len, erule none)
qed

lemmas fox_route_defs = foxRequest_def steadyClock_def quotaError_def imageCandidate_def
  twoOfFour_def allThrow_def generatedImage_def contentParts_def truthy_def or_else_def
  or_opt_def

text \<open>
  Two sub-requests of four yield a payload: the answer holds exactly their two images.
\<close>

theorem generate_images_partial_results_witness:
  "req_prompt foxRequest = Some ''a red fox'' \<and> truthy (req_apiKey foxRequest) \<and>
   yieldsImage (twoOfFour 0 (contentParts ''a red fox'' None)) \<and>
   \<not> yieldsImage (twoOfFour 1 (contentParts ''a red fox'' None)) \<and>
   yieldsImage (twoOfFour 2 (contentParts ''a red fox'' None)) \<and>
   \<not> yieldsImage (twoOfFour 3 (contentParts ''a red fox'' None)) \<and>
   POST_generate_images None steadyClock twoOfFour (Returns foxRequest) =
     \<lparr>status = 200,
      body = emptyBody\<lparr>success := Some True, data_images := Some foxImages,
               data_prompt := Some ''a red fox''\<rparr>\<rparr> \<and>
   length foxImages = 2"
proof -
  have p: "req_prompt foxRequest = Some ''a red fox''" and n: "''a red fox'' \<noteq> []"
    and k: "truthy (req_apiKey foxRequest) \<or> truthy None"
    by (simp_all add: foxRequest_def truthy_def)
  have b: "req_imageBytes foxRequest = None" by (simp add: foxRequest_def)
  have y: "yieldsImage (twoOfFour 0 (contentParts ''a red fox'' None))"
    "\<not> yieldsImage (twoOfFour 1 (contentParts ''a red fox'' None))"
    "yieldsImage (twoOfFour 2 (contentParts ''a red fox'' None))"
    "\<not> yieldsImage (twoOfFour 3 (contentParts ''a red fox'' None))"
    by (simp_all add: yieldsImage_def candidateHasImage_def partHasImage_def fox_route_defs)
  from generate_images_partial_results [OF p n k, of steadyClock twoOfFour]
  obtain imgs where post: "POST_generate_images None steadyClock twoOfFour (Returns foxRequest) =
       \<lparr>status = 200,
        body = emptyBody\<lparr>success := Some True, data_images := Some imgs,
                 data_prompt := Some ''a red fox''\<rparr>\<rparr>"
    and imgs: "map Some imgs =
       filter (\<lambda>x. x \<noteq> None)
         (map (\<lambda>index. generatedImage (steadyClock index) index
                 (twoOfFour index (contentParts ''a red fox'' (req_imageBytes foxRequest))))
            [0, 1, 2, 3])"
    by blast
  have "map Some imgs = map Some foxImages"
    unfolding imgs by (simp add: b fox_route_defs foxImages_def show_nat.simps)
  then have "imgs = foxImages" by (simp add: inj_map_eq_map)
  with post p k y show ?thesis by (simp add: foxImages_def truthy_def)
qed

text \<open>
  All four sub-requests throw: the route answers 200 with \<open>success: true\<close>, no error and an
  empty \<open>images\<close> array, and the grid completes the generation with no image.
\<close>

theorem no_content_counterexample:
  "status (POST_generate_images None steadyClock allThrow (Returns foxRequest)) = 200 \<and>
   success (body (POST_generate_images None steadyClock allThrow (Returns foxRequest))) =
     Some True \<and>
   data_images (body (POST_generate_images None steadyClock allThrow (Returns foxRequest))) =
     Some [] \<and>
   data_error (body (POST_generate_images None steadyClock allThrow (Returns foxRequest))) =
     None \<and>
   tryImage (fst foxBegun)
     (delivered (POST_generate_images None steadyClock allThrow (Returns foxRequest))) =
     Inr (ImageGeneration ''loading-1700000005000'' ''a red fox'' [] 1700000005000 False)"
  by (simp add: POST_generate_images_def fox_route_defs emptyBody_def upt_rec
        List.map_filter_simps tryImage_def delivered_def completedImageGeneration_def
        scenario_defs)

section \<open>Properties of the poller\<close>

lemma pollOperation_steps:
  "\<forall>k<n. getVideosOperation (a + k) (ops k) = Returns (ops (Suc k)) \<and> \<not> op_done (ops k) \<Longrightarrow>
   a + n \<le> maxAttempts \<Longrightarrow>
     pollOperation getVideosOperation (ops 0) a w =
       pollOperation getVideosOperation (ops n) (a + n) (w + n * pollInterval)"
proof (induction n arbitrary: a w ops)
  case 0
  then show ?case by simp
next
  case (Suc n)
  from Suc.prems(1) have first: "getVideosOperation a (ops 0) = Returns (ops 1)"
    "\<not> op_done (ops 0)"
    by (auto dest: spec [of _ 0])
  from Suc.prems(2) have lt: "a < maxAttempts" by simp
  have rest: "\<forall>k<n. getVideosOperation (Suc a + k) ((ops \<circ> Suc) k) = Returns ((ops \<circ> Suc) (Suc k)) \<and>
      \<not> op_done ((ops \<circ> Suc) k)"
    using Suc.prems(1) by auto
  have bound: "Suc a + n \<le> maxAttempts" using Suc.prems(2) by simp
  have "pollOperation getVideosOperation (ops 0) a w =
      pollOperation getVideosOperation ((ops \<circ> Suc) 0) (Suc a) (w + pollInterval)"
    using first lt by (subst pollOperation.simps) simp
  also note Suc.IH [OF rest bound, of "w + pollInterval"]
  finally show ?case by (simp add: add.assoc add.commute add.left_commute)
qed

lemma pollOperation_stops:
  "op_done op \<or> attempts = maxAttempts \<Longrightarrow>
     pollOperation getVideosOperation op attempts waited = Inr (op, attempts, waited)"
  by (subst pollOperation.simps) auto

lemma pollOperation_throws:
  "\<not> op_done op \<Longrightarrow> attempts < maxAttempts \<Longrightarrow> getVideosOperation attempts op = Throws err \<Longrightarrow>
     pollOperation getVideosOperation op attempts waited = Inl err"
  by (subst pollOperation.simps) simp

lemma errorOnly_eq:
  "errorOnly code msg = errorOnly code' msg' \<longleftrightarrow> code = code' \<and> msg = msg'"
  by (auto simp: errorOnly_def emptyBody_def)

text \<open>
  C2. Let the first \<open>n\<close> status checks, \<open>n\<close> at most 60, return the operations
  \<open>ops 1\<close> to \<open>ops n\<close>, with \<open>ops 0\<close> the operation that was started and none of
  \<open>ops 0\<close> to \<open>ops (n - 1)\<close> done. If \<open>ops n\<close> is done, the loop ends there, after
  \<open>n\<close> checks and \<open>n\<close> waits of 10000 ms, and the route answers with the videos of
  \<open>ops n\<close>. If \<open>n\<close> is 60 and \<open>ops 60\<close> is not done either, the loop ends after exactly
  60 checks and 600000 ms and the route answers 408, ``Video generation timed out''. If a
  check throws before that, the route answers 500 with its general message, which is
  another response than the timeout.
\<close>

theorem poller_bounded:
  assumes "\<forall>k<n. getVideosOperation k (ops k) = Returns (ops (Suc k)) \<and> \<not> op_done (ops k)"
    and "n \<le> 60"
  shows "(op_done (ops n) \<longrightarrow>
            pollOperation getVideosOperation (ops 0) 0 0 = Inr (ops n, n, n * 10000) \<and>
            awaitVideos caught clock getVideosOperation apiKey prmpt (Returns (ops 0)) =
              \<lparr>status = 200,
               body = emptyBody\<lparr>success := Some True,
                        data_videos := Some (videosOf clock apiKey (ops n)),
                        data_prompt := Some prmpt\<rparr>\<rparr>) \<and>
         (\<not> op_done (ops n) \<and> n = 60 \<longrightarrow>
            pollOperation getVideosOperation (ops 0) 0 0 = Inr (ops 60, 60, 600000) \<and>
            awaitVideos caught clock getVideosOperation apiKey prmpt (Returns (ops 0)) =
              errorOnly 408 ''Video generation timed out'') \<and>
         (\<not> op_done (ops n) \<and> n < 60 \<and> getVideosOperation n (ops n) = Throws err \<longrightarrow>
            pollOperation getVideosOperation (ops 0) 0 0 = Inl err \<and>
            awaitVideos caught clock getVideosOperation apiKey prmpt (Returns (ops 0)) =
              errorOnly 500 caught) \<and>
         errorOnly 408 ''Video generation timed out'' \<noteq> errorOnly 500 caught"
proof -
  have steps: "pollOperation getVideosOperation (ops 0) 0 0 =
      pollOperation getVideosOperation (ops n) n (n * 10000)"
    using pollOperation_steps [of n getVideosOperation 0 ops 0] assms
    by (simp add: maxAttempts_def pollInterval_def)
  have fin: "pollOperation getVideosOperation (ops 0) 0 0 = Inr (ops n, n, n * 10000)"
    if "op_done (ops n)"
    using that by (simp add: steps pollOperation_stops)
  have out: "pollOperation getVideosOperation (ops 0) 0 0 = Inr (ops 60, 60, 600000)"
    if "n = 60"
    using that by (simp add: steps pollOperation_stops maxAttempts_def)
  have thr: "pollOperation getVideosOperation (ops 0) 0 0 = Inl err"
    if "\<not> op_done (ops n)" "n < 60" "getVideosOperation n (ops n) = Throws err"
    using that by (simp add: steps pollOperation_throws maxAttempts_def)
  show ?thesis
    using fin out thr by (auto simp: awaitVideos_def errorOnly_eq)
qed

lemma POST_generate_videos_valid:
  "req_prompt req = Some prmpt \<Longrightarrow> prmpt \<noteq> [] \<Longrightarrow>
   or_opt (req_apiKey req) envKey = Some apiKey \<Longrightarrow> apiKey \<noteq> [] \<Longrightarrow>
     POST_generate_videos envKey clock generateVideos getVideosOperation (Returns req) =
       awaitVideos ''Failed to generate videos'' clock getVideosOperation apiKey prmpt
         (generateVideos prmpt)"
  by (simp add: POST_generate_videos_def truthy_def or_else_def)

lemma POST_image_to_video_valid:
  "req_prompt req = Some prmpt \<Longrightarrow> prmpt \<noteq> [] \<Longrightarrow>
   req_imageBytes req = Some bytes \<Longrightarrow> bytes \<noteq> [] \<Longrightarrow>
   or_opt (req_apiKey req) envKey = Some apiKey \<Longrightarrow> apiKey \<noteq> [] \<Longrightarrow>
     POST_image_to_video envKey clock generateVideos getVideosOperation (Returns req) =
       awaitVideos ''Failed to convert image to video'' clock getVideosOperation apiKey prmpt
         (generateVideos prmpt bytes)"
  by (simp add: POST_image_to_video_def truthy_def or_else_def)

text \<open>
  A provider that never reports done is checked 60 times and the route times out; one
  that reports done on the third check is checked three times and the route returns the
  two videos.
\<close>

theorem poller_bounded_witness:
  "pollOperation stillRunning pendingOperation 0 0 = Inr (pendingOperation, 60, 600000) \<and>
   POST_generate_videos None steadyClock startPending stillRunning (Returns skylineRequest) =
     errorOnly 408 ''Video generation timed out'' \<and>
   pollOperation doneOnThird pendingOperation 0 0 = Inr (finishedOperation, 3, 30000) \<and>
   POST_generate_videos None steadyClock startPending doneOnThird (Returns skylineRequest) =
     \<lparr>status = 200,
      body = emptyBody\<lparr>success := Some True,
               data_videos :=
                 Some [Some \<lparr>vid_id = ''1700000009000-0'',
                             vid_url = ''https://videos.example/v1?alt=media&key=user-key'',
                             vid_uri = ''https://videos.example/v1?alt=media''\<rparr>,
                       Some \<lparr>vid_id = ''1700000009000-1'',
                             vid_url = ''https://videos.example/v2?alt=media&key=user-key'',
                             vid_uri = ''https://videos.example/v2?alt=media''\<rparr>],
               data_prompt := Some ''a city skyline''\<rparr>\<rparr>"
proof -
  have never: "\<forall>k<60. stillRunning k (pendingStates k) = Returns (pendingStates (Suc k)) \<and>
      \<not> op_done (pendingStates k)"
    by (simp add: stillRunning_def pendingStates_def pendingOperation_def)
  have third: "\<forall>k<3. doneOnThird k (skylineStates k) = Returns (skylineStates (Suc k)) \<and>
      \<not> op_done (skylineStates k)"
    by (auto simp: doneOnThird_def skylineStates_def pendingOperation_def)
  have route: "POST_generate_videos None steadyClock startPending g (Returns skylineRequest) =
      awaitVideos ''Failed to generate videos'' steadyClock g ''user-key'' ''a city skyline''
        (Returns (pendingStates 0))" for g
    using POST_generate_videos_valid
      [of skylineRequest "''a city skyline''" None "''user-key''" steadyClock startPending g]
    by (simp add: skylineRequest_def or_opt_def truthy_def startPending_def pendingStates_def)
  have s0: "skylineStates 0 = pendingStates 0" "pendingStates 0 = pendingOperation"
    "pendingStates 60 = pendingOperation" "skylineStates 3 = finishedOperation"
    by (simp_all add: skylineStates_def pendingStates_def)
  have d: "\<not> op_done (pendingStates 60)" "op_done (skylineStates 3)"
    by (simp_all add: skylineStates_def pendingStates_def pendingOperation_def
          finishedOperation_def)
  from poller_bounded
         [where n = 60 and ops = pendingStates and getVideosOperation = stillRunning
            and caught = "''Failed to generate videos''" and clock = steadyClock
            and apiKey = "''user-key''" and prmpt = "''a city skyline''", OF never] d
  have 1: "pollOperation stillRunning (pendingStates 0) 0 0 = Inr (pendingStates 60, 60, 600000)"
    "awaitVideos ''Failed to generate videos'' steadyClock stillRunning ''user-key''
       ''a city skyline'' (Returns (pendingStates 0)) = errorOnly 408 ''Video generation timed out''"
    by simp_all
  from poller_bounded
         [where n = 3 and ops = skylineStates and getVideosOperation = doneOnThird
            and caught = "''Failed to generate videos''" and clock = steadyClock
            and apiKey = "''user-key''" and prmpt = "''a city skyline''", OF third] d
  have 2: "pollOperation doneOnThird (skylineStates 0) 0 0 = Inr (skylineStates 3, 3, 30000)"
    "awaitVideos ''Failed to generate videos'' steadyClock doneOnThird ''user-key''
       ''a city skyline'' (Returns (skylineStates 0)) =
     \<lparr>status = 200,
      body = emptyBody\<lparr>success := Some True,
               data_videos := Some (videosOf steadyClock ''user-key'' (skylineStates 3)),
               data_prompt := Some ''a city skyline''\<rparr>\<rparr>"
    by simp_all
  have v: "videosOf steadyClock ''user-key'' finishedOperation =
      [Some \<lparr>vid_id = ''1700000009000-0'',
             vid_url = ''https://videos.example/v1?alt=media&key=user-key'',
             vid_uri = ''https://videos.example/v1?alt=media''\<rparr>,
       Some \<lparr>vid_id = ''1700000009000-1'',
             vid_url = ''https://videos.example/v2?alt=media&key=user-key'',
             vid_uri = ''https://videos.example/v2?alt=media''\<rparr>]"
    by (simp add: videosOf_def finishedOperation_def videoEntry_def steadyClock_def
          show_nat.simps)
  from 1 2 show ?thesis
    by (simp add: route s0 v)
qed

section \<open>Properties of the improve-image workflow\<close>

lemma improve_label:
  "handleImproveImage_begin dateNow newDate key imp st = (L, st') \<Longrightarrow>
     prompt L = originalPrompt (improveImageModal st) @ '' - improved: '' @ imp \<and>
     requests st' = requests st @
       [ImproveImage (originalPrompt (improveImageModal st)) imp
          (modal_imageBytes (improveImageModal st)) key]"
  by (auto simp: handleImproveImage_begin_def Let_def)

lemma improved_prompt:
  "success d = Some True \<Longrightarrow> data_images d = Some imgs \<Longrightarrow>
     \<exists>c. tryImproveImage L (Resolved d) = Inr c \<and>
         prompt c = or_else (data_enhancedPrompt d) (prompt L)"
  by (simp add: tryImproveImage_def completedImprovedGeneration_def)

lemma POST_improve_image_valid:
  assumes "imp_originalPrompt req = Some orig" "orig \<noteq> []"
    and "imp_improvementPrompt req = Some imp" "imp \<noteq> []"
    and "truthy (imp_imageBytes req)" "truthy (or_opt (imp_apiKey req) envKey)"
    and "generateImages (composePrompt orig imp) = Returns generated"
  shows "status (POST_improve_image envKey clock generateImages (Returns req)) = 200"
    and "success (body (POST_improve_image envKey clock generateImages (Returns req))) = Some True"
    and "data_enhancedPrompt (body (POST_improve_image envKey clock generateImages (Returns req)))
           = Some (composePrompt orig imp)"
    and "\<exists>imgs. data_images (body (POST_improve_image envKey clock generateImages (Returns req)))
           = Some imgs"
  using assms
  by (simp_all add: POST_improve_image_def truthy_def or_else_def emptyBody_def Let_def)

lemma POST_improve_image_conditioned_valid:
  assumes "imp_originalPrompt req = Some orig" "orig \<noteq> []"
    and "imp_improvementPrompt req = Some imp" "imp \<noteq> []"
    and "truthy (imp_imageBytes req)" "truthy (or_opt (imp_apiKey req) envKey)"
  shows "status (POST_improve_image_conditioned envKey clock generateContent (Returns req)) = 200"
    and "success (body (POST_improve_image_conditioned envKey clock generateContent (Returns req)))
           = Some True"
    and "data_enhancedPrompt
           (body (POST_improve_image_conditioned envKey clock generateContent (Returns req)))
           = Some (conditionedPrompt imp)"
    and "\<exists>imgs. data_images
           (body (POST_improve_image_conditioned envKey clock generateContent (Returns req)))
           = Some imgs"
  using assms
  by (simp_all add: POST_improve_image_conditioned_def truthy_def or_else_def emptyBody_def
        Let_def)

text \<open>
  C8. For a request with both prompts, image bytes and an API key, on which the image
  model returns, the route calls the model with, and returns as \<open>enhancedPrompt\<close>, the
  original prompt followed by ``. Please improve this image by: '' and the improvement
  prompt. The loading record of the workflow carries the label made of the original
  prompt, `` - improved: '' and the improvement prompt, which contains both texts. For
  any successful response, the completed record's prompt is the response's
  \<open>enhancedPrompt\<close> when that is a non-empty string and the label otherwise; for the
  route's own response it is the composed prompt.
\<close>

theorem improve_image_prompts:
  assumes "imp_originalPrompt req = Some orig" and "orig \<noteq> []"
    and "imp_improvementPrompt req = Some imp" and "imp \<noteq> []"
    and "truthy (imp_imageBytes req)" and "truthy (or_opt (imp_apiKey req) envKey)"
    and "generateImages (orig @ ''. Please improve this image by: '' @ imp) = Returns generated"
    and "originalPrompt (improveImageModal st) = orig"
    and "handleImproveImage_begin dateNow newDate key imp st = (L, st')"
  shows "data_enhancedPrompt (body (POST_improve_image envKey clock generateImages (Returns req)))
           = Some (orig @ ''. Please improve this image by: '' @ imp) \<and>
         prompt L = orig @ '' - improved: '' @ imp \<and>
         sublist orig (prompt L) \<and> sublist imp (prompt L) \<and>
         (\<forall>d imgs. success d = Some True \<and> data_images d = Some imgs \<longrightarrow>
            (\<exists>c. tryImproveImage L (Resolved d) = Inr c \<and>
                 prompt c = (case data_enhancedPrompt d of
                               None \<Rightarrow> prompt L
                             | Some e \<Rightarrow> if e = [] then prompt L else e))) \<and>
         (\<exists>c. tryImproveImage L
                 (delivered (POST_improve_image envKey clock generateImages (Returns req))) = Inr c \<and>
              prompt c = orig @ ''. Please improve this image by: '' @ imp)"
proof -
  note v1 = POST_improve_image_valid [OF assms(1-6), of generateImages generated clock,
      unfolded composePrompt_def, OF assms(7)]
  have label: "prompt L = orig @ '' - improved: '' @ imp"
    using improve_label [OF assms(9)] assms(8) by simp
  have "prompt L = [] @ orig @ ('' - improved: '' @ imp)"
    and "prompt L = (orig @ '' - improved: '') @ imp @ []"
    by (simp_all add: label)
  then have sub: "sublist orig (prompt L)" "sublist imp (prompt L)"
    unfolding sublist_def by blast+
  have front: "\<forall>d imgs. success d = Some True \<and> data_images d = Some imgs \<longrightarrow>
            (\<exists>c. tryImproveImage L (Resolved d) = Inr c \<and>
                 prompt c = (case data_enhancedPrompt d of
                               None \<Rightarrow> prompt L
                             | Some e \<Rightarrow> if e = [] then prompt L else e))"
    using improved_prompt [of _ _ L] by (simp add: or_else_def)
  have e1: "\<exists>c. tryImproveImage L
                 (delivered (POST_improve_image envKey clock generateImages (Returns req))) = Inr c \<and>
              prompt c = orig @ ''. Please improve this image by: '' @ imp"
    using improved_prompt [OF v1(2), of _ L] v1(3,4)
    by (auto simp: delivered_def or_else_def)
  from v1(3) label sub front e1 show ?thesis by (intro conjI)
qed

lemmas improve_defs = improveRequest_def improveBegun_def improveGrid_def oneImage_def
  handleOpenImproveModal_def handleImproveImage_begin_def sampleGrid_def emptyGrid_def
  beginGeneration_def Let_def

text \<open>
  ``a fox'' improved by ``sharper fur'': the prompt the route composes, the label, and the
  prompt shown with and without an \<open>enhancedPrompt\<close> in the response.
\<close>

theorem improve_image_prompts_witness:
  "imp_originalPrompt improveRequest = Some ''a fox'' \<and>
   imp_improvementPrompt improveRequest = Some ''sharper fur'' \<and>
   originalPrompt (improveImageModal improveGrid) = ''a fox'' \<and>
   data_enhancedPrompt
     (body (POST_improve_image None steadyClock oneImage (Returns improveRequest))) =
     Some ''a fox. Please improve this image by: sharper fur'' \<and>
   prompt (fst improveBegun) = ''a fox - improved: sharper fur'' \<and>
   map_sum id prompt
     (tryImproveImage (fst improveBegun)
        (delivered (POST_improve_image None steadyClock oneImage (Returns improveRequest)))) =
     Inr ''a fox. Please improve this image by: sharper fur'' \<and>
   map_sum id prompt
     (tryImproveImage (fst improveBegun)
        (Resolved (emptyBody\<lparr>success := Some True, data_images := Some foxImages\<rparr>))) =
     Inr ''a fox - improved: sharper fur''"
proof -
  have r: "imp_originalPrompt improveRequest = Some ''a fox''" "''a fox'' \<noteq> []"
    "imp_improvementPrompt improveRequest = Some ''sharper fur''" "''sharper fur'' \<noteq> []"
    "truthy (imp_imageBytes improveRequest)"
    "truthy (or_opt (imp_apiKey improveRequest) None)"
    by (simp_all add: improveRequest_def truthy_def or_opt_def)
  have g: "oneImage (''a fox'' @ ''. Please improve this image by: '' @ ''sharper fur'') =
      Returns (Some [\<lparr>image_bytes = Some ''DDDD''\<rparr>])"
    by (simp add: oneImage_def)
  have m: "originalPrompt (improveImageModal improveGrid) = ''a fox''"
    by (simp add: improve_defs)
  have b: "handleImproveImage_begin 1700000020000 1700000020000 (Some ''user-key'')
      ''sharper fur'' improveGrid = (fst improveBegun, snd improveBegun)"
    by (simp add: improveBegun_def)
  note t = improve_image_prompts
    [where req = improveRequest and orig = "''a fox''" and imp = "''sharper fur''"
       and envKey = None and generateImages = oneImage
       and generated = "Some [\<lparr>image_bytes = Some ''DDDD''\<rparr>]" and st = improveGrid
       and dateNow = 1700000020000 and newDate = 1700000020000 and key = "Some ''user-key''"
       and L = "fst improveBegun" and st' = "snd improveBegun" and clock = steadyClock,
     OF r g m b]
  from t obtain c where c: "tryImproveImage (fst improveBegun)
      (delivered (POST_improve_image None steadyClock oneImage (Returns improveRequest))) = Inr c"
      "prompt c = ''a fox'' @ ''. Please improve this image by: '' @ ''sharper fur''"
    by blast
  have e: "success (emptyBody\<lparr>success := Some True, data_images := Some foxImages\<rparr>) = Some True \<and>
      data_images (emptyBody\<lparr>success := Some True, data_images := Some foxImages\<rparr>) =
        Some foxImages"
    "data_enhancedPrompt (emptyBody\<lparr>success := Some True, data_images := Some foxImages\<rparr>) =
        None"
    by (simp_all add: emptyBody_def)
  from t e(1) obtain c' where c': "tryImproveImage (fst improveBegun)
        (Resolved (emptyBody\<lparr>success := Some True, data_images := Some foxImages\<rparr>)) = Inr c'"
      "prompt c' = (case data_enhancedPrompt
                      (emptyBody\<lparr>success := Some True, data_images := Some foxImages\<rparr>) of
                     None \<Rightarrow> prompt (fst improveBegun)
                   | Some e \<Rightarrow> if e = [] then prompt (fst improveBegun) else e)"
    by blast
  from t have "data_enhancedPrompt
      (body (POST_improve_image None steadyClock oneImage (Returns improveRequest))) =
      Some (''a fox'' @ ''. Please improve this image by: '' @ ''sharper fur'')"
    and "prompt (fst improveBegun) = ''a fox'' @ '' - improved: '' @ ''sharper fur''"
    by blast+
  with r m c c' e(2) show ?thesis by simp
qed

text \<open>
  The image-conditioned variant of the route composes the instruction alone, since the
  image itself goes to the model; the grid shows whichever prompt the route returns.
\<close>

lemma conditioned_variant_prompt:
  assumes "imp_originalPrompt req = Some orig" and "orig \<noteq> []"
    and "imp_improvementPrompt req = Some imp" and "imp \<noteq> []"
    and "truthy (imp_imageBytes req)" and "truthy (or_opt (imp_apiKey req) envKey)"
  shows "data_enhancedPrompt
           (body (POST_improve_image_conditioned envKey clock generateContent (Returns req)))
           = Some (''Please improve this image by: '' @ imp) \<and>
         (\<exists>c. tryImproveImage L
                 (delivered (POST_improve_image_conditioned envKey clock generateContent
                    (Returns req))) = Inr c \<and>
              prompt c = ''Please improve this image by: '' @ imp)"
proof -
  note v2 = POST_improve_image_conditioned_valid [OF assms(1-6), of clock generateContent,
      unfolded conditionedPrompt_def]
  have "\<exists>c. tryImproveImage L
                 (delivered (POST_improve_image_conditioned envKey clock generateContent
                    (Returns req))) = Inr c \<and>
              prompt c = ''Please improve this image by: '' @ imp"
    using improved_prompt [OF v2(2), of _ L] v2(3,4)
    by (auto simp: delivered_def or_else_def)
  with v2(3) show ?thesis by simp
qed

end
